theory Spec2Isabelle
  imports Complex_Main "HOL-Library.Multiset" "HOL-Library.AList"
begin

section \<open>Data model\<close>

text \<open>
  The record shapes of \<^verbatim>\<open>App.tsx\<close> (both drafts declare the same types). A JavaScript
  \<^verbatim>\<open>number\<close> that the data model uses as an integer (\<^verbatim>\<open>block_order\<close>,
  \<^verbatim>\<open>set_number\<close>) is an \<open>int\<close>; an optional field is an \<open>option\<close>, \<open>None\<close> being
  \<^verbatim>\<open>undefined\<close>. The \<^verbatim>\<open>id\<close> of an Exercise is declared \<^verbatim>\<open>string\<close>, but an Exercise
  arrives from \<^verbatim>\<open>r.json()\<close> unchecked and \<^verbatim>\<open>addExercise\<close> tests it for falsiness, so
  the model keeps the possibility that it is missing.
\<close>

datatype exercise_type = Strength | Mobility | Core | Plyo | Cardio

record Exercise =
  ex_id :: "string option"
  ex_name :: string
  equipment :: string
  default_reps :: "string option"
  ex_type :: exercise_type
  thumbnail_url :: "string option"
  yt_query :: "string option"
  description :: "string option"

record PlanRow =
  day_id :: string
  day_name :: string
  block_order :: int
  block_name :: string
  set_number :: int
  exercise_id :: string
  prescribed_reps :: "string option"
  tempo :: "string option"
  row_notes :: "string option"

record StrengthLog =
  log_date_iso :: string
  log_day_id :: string
  log_block_name :: string
  log_set_number :: int
  log_exercise_id :: string
  reps_done :: "string option"
  load :: "string option"
  log_notes :: "string option"

text \<open>The argument of the card's save callback: \<^verbatim>\<open>{ reps_done, load, notes }\<close>.\<close>

record SetData =
  data_reps_done :: "string option"
  data_load :: "string option"
  data_notes :: "string option"

text \<open>
  The cardio records are stored and passed on untouched; their \<^verbatim>\<open>number\<close> fields may
  hold fractions and are rationals here.
\<close>

record CardioPlanRow =
  cp_day_id :: "string option"
  cp_date_iso :: "string option"
  cp_activity :: string
  target_duration_min :: "rat option"
  target_hr_zone :: "string option"
  target_rpe :: "rat option"
  cp_notes :: "string option"

record CardioLog =
  cl_date_iso :: string
  cl_activity :: string
  duration_min :: "rat option"
  distance_km :: "rat option"
  avg_hr :: "rat option"
  rpe :: "rat option"
  tss :: "rat option"
  cl_notes :: "string option"

section \<open>JavaScript truthiness of strings\<close>

text \<open>
  \<^verbatim>\<open>a || b\<close> yields \<^verbatim>\<open>a\<close> when \<^verbatim>\<open>a\<close> is truthy and \<^verbatim>\<open>b\<close> otherwise; of the values a
  \<^verbatim>\<open>string | undefined\<close> can take, \<^verbatim>\<open>undefined\<close> and the empty string are falsy.
\<close>

definition truthy :: "string option \<Rightarrow> bool" where
  "truthy v = (case v of None \<Rightarrow> False | Some s \<Rightarrow> s \<noteq> [])"

definition or_else :: "string option \<Rightarrow> string \<Rightarrow> string" where
  "or_else v d = (case v of None \<Rightarrow> d | Some s \<Rightarrow> if s \<noteq> [] then s else d)"

text \<open>
  A value used as a property key is converted to a string: \<^verbatim>\<open>obj[undefined]\<close> reads the
  property named \<^verbatim>\<open>"undefined"\<close>.
\<close>

definition prop_key :: "string option \<Rightarrow> string" where
  "prop_key v = (case v of None \<Rightarrow> ''undefined'' | Some s \<Rightarrow> s)"

section \<open>Errors\<close>

text \<open>What the code throws, or what a promise is rejected with.\<close>

datatype js_error =
  Error string      \<comment> \<open>\<^verbatim>\<open>new Error(message)\<close>\<close>
| SyntaxError       \<comment> \<open>the parse failure of \<^verbatim>\<open>r.json()\<close>\<close>
| TypeError         \<comment> \<open>a property read on \<^verbatim>\<open>null\<close> or \<^verbatim>\<open>undefined\<close>, a call of a non-function\<close>
| FetchRejected     \<comment> \<open>\<^verbatim>\<open>fetch\<close> rejected: no response\<close>

section \<open>Plain objects used as dictionaries\<close>

text \<open>
  The views keep dictionaries in plain objects (\<^verbatim>\<open>group\<close>, \<^verbatim>\<open>prescribed\<close>, \<^verbatim>\<open>exMap\<close>) and
  read them with \<^verbatim>\<open>obj[key]\<close>. Such a read finds the object's own property, and
  otherwise the property of that name that every object inherits from
  \<^verbatim>\<open>Object.prototype\<close>: a function for each of the names below but \<^verbatim>\<open>__proto__\<close>, under
  which it finds \<^verbatim>\<open>Object.prototype\<close> itself. All of these are truthy. A read therefore
  yields nothing (\<^verbatim>\<open>undefined\<close>), a value of the expected type (\<open>Val\<close>), or the inherited
  value of the named property (\<open>Proto\<close>).
\<close>

datatype 'a js_value = Val 'a | Proto string

definition Object_prototype_names :: "string list" where
  "Object_prototype_names =
     [''constructor'', ''hasOwnProperty'', ''isPrototypeOf'', ''propertyIsEnumerable'',
      ''toLocaleString'', ''toString'', ''valueOf'', ''__proto__'',
      ''__defineGetter__'', ''__defineSetter__'', ''__lookupGetter__'', ''__lookupSetter__'']"

definition obj_get :: "(string \<rightharpoonup> 'a) \<Rightarrow> string \<Rightarrow> 'a js_value option" where
  "obj_get own k =
     (case own k of
        Some v \<Rightarrow> Some (Val v)
      | None \<Rightarrow> if k \<in> set Object_prototype_names then Some (Proto k) else None)"

text \<open>
  The fields that the card reads from what it is given as an exercise. An inherited
  value has none of them but \<^verbatim>\<open>name\<close>: a function's name is that of the property,
  except that \<^verbatim>\<open>constructor\<close> is the function \<^verbatim>\<open>Object\<close>; \<^verbatim>\<open>Object.prototype\<close> has no name.
\<close>

definition read_id :: "Exercise js_value \<Rightarrow> string option" where
  "read_id x = (case x of Val e \<Rightarrow> ex_id e | Proto n \<Rightarrow> None)"

definition read_name :: "Exercise js_value \<Rightarrow> string option" where
  "read_name x =
     (case x of
        Val e \<Rightarrow> Some (ex_name e)
      | Proto n \<Rightarrow>
          if n = ''__proto__'' then None
          else if n = ''constructor'' then Some ''Object''
          else Some n)"

definition read_equipment :: "Exercise js_value \<Rightarrow> string option" where
  "read_equipment x = (case x of Val e \<Rightarrow> Some (equipment e) | Proto n \<Rightarrow> None)"

definition read_default_reps :: "Exercise js_value \<Rightarrow> string option" where
  "read_default_reps x = (case x of Val e \<Rightarrow> default_reps e | Proto n \<Rightarrow> None)"

definition read_yt_query :: "Exercise js_value \<Rightarrow> string option" where
  "read_yt_query x = (case x of Val e \<Rightarrow> yt_query e | Proto n \<Rightarrow> None)"

section \<open>ExerciseCard and Block\<close>

text \<open>
  What an \<^verbatim>\<open>ExerciseCard\<close> shows, as data: the props it was given and what it computes
  from them. \<open>prescribed_child\<close> is the value of
  \<^verbatim>\<open>prescribedReps || exercise.default_reps || "as assigned"\<close>, which the card places
  after the label: a text, or an inherited value, for which no text appears (React
  renders nothing for a function and refuses an object). \<open>save_args\<close> are the two
  arguments that the card's \<^verbatim>\<open>onSave\<close> closure, built by \<^verbatim>\<open>Block\<close>, passes on with the
  entered data. String concatenation turns \<^verbatim>\<open>undefined\<close> into the text
  \<^verbatim>\<open>undefined\<close>, as a property key does. The React key, the thumbnail and the
  percent-encoding of the video link are not part of the model.
\<close>

record Card =
  card_exercise :: "Exercise js_value"
  card_setNumber :: int
  card_name :: "string option"
  equipment_text :: string
  prescribed_child :: "string js_value"
  ytQuery :: string
  save_args :: "string option \<times> int"

definition ExerciseCard ::
  "Exercise js_value \<Rightarrow> int \<Rightarrow> string js_value option \<Rightarrow> string option \<times> int \<Rightarrow> Card" where
  "ExerciseCard exercise setNumber prescribedReps onSave =
     \<lparr> card_exercise = exercise,
       card_setNumber = setNumber,
       card_name = read_name exercise,
       equipment_text = or_else (read_equipment exercise) ''bodyweight'',
       prescribed_child =
         (case prescribedReps of
            Some (Proto n) \<Rightarrow> Proto n
          | Some (Val s) \<Rightarrow>
              if s \<noteq> [] then Val s
              else Val (or_else (read_default_reps exercise) ''as assigned'')
          | None \<Rightarrow> Val (or_else (read_default_reps exercise) ''as assigned'')),
       ytQuery = or_else (read_yt_query exercise) (prop_key (read_name exercise) @ '' exercise''),
       save_args = onSave \<rparr>"

record Section =
  title :: string
  children :: "Card list"

text \<open>
  \<^verbatim>\<open>for (let set = 1; set <= setCount; set++) for (const ex of exercises) rows.push(...)\<close>:
  the outer loop runs over \<open>[1..setCount]\<close>, which is empty when \<open>setCount < 1\<close>.
  \<^verbatim>\<open>prescribedByExercise\<close> holds the own properties of the object that is passed;
  \<^verbatim>\<open>prescribedByExercise[ex.id]\<close> reads it as every plain object is read.
\<close>

definition Block ::
  "string \<Rightarrow> int \<Rightarrow> Exercise js_value list \<Rightarrow> (string \<rightharpoonup> string) \<Rightarrow> Section" where
  "Block name setCount exercises prescribedByExercise =
     \<lparr> title = name,
       children =
         concat (map (\<lambda>set. map (\<lambda>ex.
             ExerciseCard ex set (obj_get prescribedByExercise (prop_key (read_id ex)))
               (read_id ex, set))
           exercises) [1..setCount]) \<rparr>"

section \<open>The mock adapter's store\<close>

text \<open>
  \<^verbatim>\<open>MOCK_DB\<close> is module-level mutable state; every adapter operation takes the store and
  returns the updated one. \<^verbatim>\<open>exercises\<close> is a \<^verbatim>\<open>Record<string, Exercise>\<close>, a plain
  object: \<open>db_exercises\<close> is the map of its own properties, and \<open>db_exercises_proto\<close>
  the exercise that an assignment has made its prototype, if any (\<open>None\<close>: it is
  \<^verbatim>\<open>Object.prototype\<close>, as at the start).
\<close>

record MockDB =
  db_exercises :: "string \<rightharpoonup> Exercise"
  db_exercises_proto :: "Exercise option"
  db_plan :: "PlanRow list"
  db_days :: "(string \<times> string) list"
  db_strengthLogs :: "StrengthLog list"
  db_cardioPlan :: "CardioPlanRow list"
  db_cardioLogs :: "CardioLog list"

text \<open>
  The seed of \<^verbatim>\<open>MOCK_DB\<close>: two exercises, a plan of two blocks with three sets each for
  Day 1, four days, one cardio plan row and no logs.
\<close>

definition ex_glute_bridge :: Exercise where
  "ex_glute_bridge =
     \<lparr> ex_id = Some ''ex_glute_bridge'',
       ex_name = ''Weighted Glute Bridge'',
       equipment = ''mat; dumbbells'',
       default_reps = Some ''8 to 10'',
       ex_type = Strength,
       thumbnail_url = Some ''https://images.unsplash.com/photo-1605296867304-46d5465a13f1?q=80&w=600&auto=format&fit=crop'',
       yt_query = Some ''weighted glute bridge form'',
       description = Some ''Supine, knees bent, drive through heels, squeeze glutes at top'' \<rparr>"

definition ex_banded_deadbug :: Exercise where
  "ex_banded_deadbug =
     \<lparr> ex_id = Some ''ex_banded_deadbug'',
       ex_name = ''Banded Dead Bug (overhead weight)'',
       equipment = ''mat; mini-band; dumbbell'',
       default_reps = Some ''6 each side'',
       ex_type = Core,
       thumbnail_url = Some ''https://images.unsplash.com/photo-1554298062-9e6f67f99674?q=80&w=600&auto=format&fit=crop'',
       yt_query = Some ''banded dead bug exercise'',
       description = Some ''Brace, press band apart slightly, lower opposite arm and leg'' \<rparr>"

definition seed_row :: "int \<Rightarrow> string \<Rightarrow> string \<Rightarrow> string \<Rightarrow> int \<Rightarrow> PlanRow" where
  "seed_row order bname eid reps setno =
     \<lparr> day_id = ''Day 1'', day_name = ''Glutes + Core'', block_order = order,
       block_name = bname, set_number = setno, exercise_id = eid,
       prescribed_reps = Some reps, tempo = None, row_notes = None \<rparr>"

definition MOCK_DB :: MockDB where
  "MOCK_DB =
     \<lparr> db_exercises =
         [''ex_glute_bridge'' \<mapsto> ex_glute_bridge, ''ex_banded_deadbug'' \<mapsto> ex_banded_deadbug],
       db_exercises_proto = None,
       db_plan =
         map (seed_row 1 ''Glute Strength Block'' ''ex_glute_bridge'' ''8 to 10'') [1, 2, 3] @
         map (seed_row 2 ''Core Block'' ''ex_banded_deadbug'' ''6 each side'') [1, 2, 3],
       db_days =
         [(''Day 1'', ''Glutes + Core''), (''Day 2'', ''Upper Push''),
          (''Day 3'', ''Upper Pull''), (''Day 4'', ''Lower Body'')],
       db_strengthLogs = [],
       db_cardioPlan =
         [\<lparr> cp_day_id = Some ''Day 2'', cp_date_iso = None, cp_activity = ''Zone 2 Ride'',
            target_duration_min = Some 60, target_hr_zone = Some ''Z2'', target_rpe = None,
            cp_notes = Some ''Keep cadence smooth'' \<rparr>],
       db_cardioLogs = [] \<rparr>"

record OkResult =
  ok :: bool

definition MockAdapter_saveStrengthLog :: "StrengthLog \<Rightarrow> MockDB \<Rightarrow> OkResult \<times> MockDB" where
  "MockAdapter_saveStrengthLog entry db =
     (\<lparr> ok = True \<rparr>, db\<lparr> db_strengthLogs := db_strengthLogs db @ [entry] \<rparr>)"

section \<open>DayWorkoutView: saving a set\<close>

text \<open>
  \<^verbatim>\<open>onSave\<close> of \<^verbatim>\<open>DayWorkoutView\<close>, the same in both drafts. The adapter is the
  view's prop: here its \<^verbatim>\<open>saveStrengthLog\<close> is a parameter acting on the adapter's state
  \<open>'db\<close>. \<open>today\<close> stands for \<^verbatim>\<open>new Date().toISOString().slice(0, 10)\<close>. The result is
  the adapter's state after the call; the status line of the view is not modelled.
\<close>

definition onSave ::
  "(StrengthLog \<Rightarrow> 'db \<Rightarrow> OkResult \<times> 'db) \<Rightarrow> string \<Rightarrow> PlanRow list
     \<Rightarrow> string \<Rightarrow> int \<Rightarrow> SetData \<Rightarrow> 'db \<Rightarrow> 'db" where
  "onSave saveStrengthLog today plan eid setno data db =
     (case find (\<lambda>p. exercise_id p = eid) plan of
        None \<Rightarrow> db
      | Some dayRow \<Rightarrow>
          snd (saveStrengthLog
                 \<lparr> log_date_iso = today,
                   log_day_id = day_id dayRow,
                   log_block_name = block_name dayRow,
                   log_set_number = setno,
                   log_exercise_id = eid,
                   reps_done = data_reps_done data,
                   load = data_load data,
                   log_notes = data_notes data \<rparr> db))"

section \<open>DayWorkoutView: grouping plan rows into blocks\<close>

text \<open>
  The \<^verbatim>\<open>blocks\<close> memo of \<^verbatim>\<open>DayWorkoutView\<close>, the same in both drafts. \<^verbatim>\<open>group\<close> is a
  plain object used as a dictionary: here the list of its own entries in insertion
  order, with distinct keys. \<^verbatim>\<open>exercises\<close> is a \<^verbatim>\<open>Set<string>\<close>, which iterates in
  insertion order: a list without repetitions. \<^verbatim>\<open>prescribed\<close> is a plain object that is
  only read by key: the map of its own properties.
\<close>

record Group =
  g_order :: int
  g_sets :: int
  g_exercises :: "string list"
  g_prescribed :: "string \<rightharpoonup> string"

definition set_add :: "'a \<Rightarrow> 'a list \<Rightarrow> 'a list" where
  "set_add x xs = (if x \<in> set xs then xs else xs @ [x])"

text \<open>
  The body of \<^verbatim>\<open>for (const row of plan)\<close>. \<^verbatim>\<open>if (!group[key]) group[key] = {...}\<close> makes
  an entry when the read finds nothing. When the read finds an inherited value (the
  block name is a name that every object inherits), no entry is made, and
  \<^verbatim>\<open>group[key].exercises.add(...)\<close> throws, \<^verbatim>\<open>exercises\<close> being undefined on that value.
  Assigning a string to \<^verbatim>\<open>prescribed["__proto__"]\<close> changes nothing.
\<close>

definition group_row :: "(string \<times> Group) list \<Rightarrow> PlanRow \<Rightarrow> js_error + (string \<times> Group) list" where
  "group_row grp row =
     (let key = block_name row;
          update =
            (\<lambda>g. g\<lparr> g_sets := max (g_sets g) (set_number row),
                    g_exercises := set_add (exercise_id row) (g_exercises g),
                    g_prescribed :=
                      (case prescribed_reps row of
                         None \<Rightarrow> g_prescribed g
                       | Some reps \<Rightarrow>
                           if reps \<noteq> [] \<and> exercise_id row \<noteq> ''__proto__''
                           then (g_prescribed g)(exercise_id row \<mapsto> reps)
                           else g_prescribed g) \<rparr>)
      in case obj_get (map_of grp) key of
           Some (Proto n) \<Rightarrow> Inl TypeError
         | Some (Val g) \<Rightarrow> Inr (AList.map_entry key update grp)
         | None \<Rightarrow>
             Inr (AList.map_entry key update
                    (grp @ [(key, \<lparr> g_order = block_order row, g_sets = 0,
                                    g_exercises = [], g_prescribed = Map.empty \<rparr>)])))"

fun group_rows :: "(string \<times> Group) list \<Rightarrow> PlanRow list \<Rightarrow> js_error + (string \<times> Group) list" where
  "group_rows grp [] = Inr grp"
| "group_rows grp (row # rows) =
     (case group_row grp row of Inl e \<Rightarrow> Inl e | Inr grp' \<Rightarrow> group_rows grp' rows)"

text \<open>
  \<^verbatim>\<open>Object.entries\<close> lists the keys that are array indices first (the decimal text of
  an integer below \<open>2^32 - 1 = 4294967295\<close>, without leading zeros), in ascending numeric order, and
  the other keys after them in insertion order.
\<close>

definition index_of :: "string \<Rightarrow> int" where
  "index_of s = foldl (\<lambda>n c. 10 * n + (of_char c - 48)) 0 s"

definition is_array_index :: "string \<Rightarrow> bool" where
  "is_array_index s =
     (s \<noteq> [] \<and> list_all (\<lambda>c. c \<in> set ''0123456789'') s \<and>
      (s = ''0'' \<or> hd s \<noteq> CHR ''0'') \<and> index_of s < 4294967295)"

definition Object_entries :: "(string \<times> 'a) list \<Rightarrow> (string \<times> 'a) list" where
  "Object_entries kvs =
     sort_key (\<lambda>kv. index_of (fst kv)) (filter (\<lambda>kv. is_array_index (fst kv)) kvs) @
     filter (\<lambda>kv. \<not> is_array_index (fst kv)) kvs"

record DerivedBlock =
  b_name :: string
  setCount :: int
  b_exercises :: "Exercise js_value list"
  prescribed :: "string \<rightharpoonup> string"

text \<open>
  \<^verbatim>\<open>Object.entries(group).sort((a, b) => a[1].order - b[1].order).map(...)\<close>; the sort is
  stable. \<open>exMap\<close> holds the own properties of the exercise map, an object whose
  prototype is \<^verbatim>\<open>Object.prototype\<close> (a parsed response, or the mock store as long as no
  exercise was stored under \<^verbatim>\<open>__proto__\<close>).
  \<^verbatim>\<open>[...v.exercises].map(id => exMap[id]).filter(Boolean)\<close> keeps, in the order of the
  ids, whatever truthy value the read finds: the exercise, or an inherited value.
\<close>

definition blocks :: "PlanRow list \<Rightarrow> (string \<rightharpoonup> Exercise) \<Rightarrow> js_error + DerivedBlock list" where
  "blocks plan exMap =
     (case group_rows [] plan of
        Inl e \<Rightarrow> Inl e
      | Inr grp \<Rightarrow>
          Inr (map (\<lambda>kv. \<lparr> b_name = fst kv, setCount = g_sets (snd kv),
                           b_exercises = List.map_filter (obj_get exMap) (g_exercises (snd kv)),
                           prescribed = g_prescribed (snd kv) \<rparr>)
                 (sort_key (\<lambda>kv. g_order (snd kv)) (Object_entries grp))))"


section \<open>The mock adapter's addExercise\<close>

record AddResult =
  add_ok :: bool
  add_exercise_id :: "string option"

text \<open>
  \<^verbatim>\<open>MOCK_DB.exercises[k] = v\<close>: the assignment makes or replaces the own property \<open>k\<close>,
  except under the key \<^verbatim>\<open>__proto__\<close>, where it makes \<open>v\<close> the prototype of the object
  and adds no property.
\<close>

definition store_exercise :: "string \<Rightarrow> Exercise \<Rightarrow> MockDB \<Rightarrow> MockDB" where
  "store_exercise k v db =
     (if k = ''__proto__'' then db\<lparr> db_exercises_proto := Some v \<rparr>
      else db\<lparr> db_exercises := (db_exercises db)(k \<mapsto> v) \<rparr>)"

text \<open>
  \<^verbatim>\<open>src/App.tsx\<close>:
  \<^verbatim>\<open>const id = ex.id || `ex_${Math.random().toString(36).slice(2, 10)}`\<close>, then
  \<^verbatim>\<open>MOCK_DB.exercises[id] = { ...ex, id }\<close>. The random source is outside the model:
  \<open>rnd36\<close> stands for the string \<^verbatim>\<open>Math.random().toString(36)\<close>, such as
  \<^verbatim>\<open>"0.4fzyo82mvyr"\<close>; \<^verbatim>\<open>slice(2, 10)\<close> keeps its characters 2 to 9, as many as there
  are.
\<close>

definition MockAdapter_addExercise_App :: "string \<Rightarrow> Exercise \<Rightarrow> MockDB \<Rightarrow> AddResult \<times> MockDB" where
  "MockAdapter_addExercise_App rnd36 ex db =
     (let new_id = or_else (ex_id ex) (''ex_'' @ take 8 (drop 2 rnd36))
      in (\<lparr> add_ok = True, add_exercise_id = Some new_id \<rparr>,
          store_exercise new_id (ex\<lparr> ex_id := Some new_id \<rparr>) db))"

text \<open>
  The other draft: \<^verbatim>\<open>MOCK_DB.exercises[ex.id] = ex; return { ok: true, exercise_id: ex.id }\<close>.
\<close>

definition MockAdapter_addExercise_part0 :: "Exercise \<Rightarrow> MockDB \<Rightarrow> AddResult \<times> MockDB" where
  "MockAdapter_addExercise_part0 ex db =
     (\<lparr> add_ok = True, add_exercise_id = ex_id ex \<rparr>,
      store_exercise (prop_key (ex_id ex)) ex db)"

section \<open>JSON values and HTTP\<close>

text \<open>
  A parsed JSON value. An object is the list of its entries, with distinct keys (as
  \<^verbatim>\<open>JSON.parse\<close> builds it). Reading a property yields a value or \<^verbatim>\<open>undefined\<close>
  (\<open>None\<close>); on \<^verbatim>\<open>null\<close> it throws a TypeError. The properties read by the adapters
  (\<^verbatim>\<open>days\<close>, \<^verbatim>\<open>plan\<close>, \<^verbatim>\<open>exercises\<close>, \<^verbatim>\<open>cardio\<close>, \<^verbatim>\<open>logs\<close>, \<^verbatim>\<open>exercise_id\<close>) are
  not built-in properties of strings, numbers, booleans or arrays, so they read as
  \<^verbatim>\<open>undefined\<close> there.
\<close>

datatype json =
  JNull | JBool bool | JNum rat | JStr string | JArr "json list" | JObj "(string \<times> json) list"

definition js_get :: "json \<Rightarrow> string \<Rightarrow> js_error + json option" where
  "js_get j k = (case j of JNull \<Rightarrow> Inl TypeError | JObj kvs \<Rightarrow> Inr (map_of kvs k) | _ \<Rightarrow> Inr None)"

fun json_truthy :: "json option \<Rightarrow> bool" where
  "json_truthy None = False"
| "json_truthy (Some JNull) = False"
| "json_truthy (Some (JBool b)) = b"
| "json_truthy (Some (JNum n)) = (n \<noteq> 0)"
| "json_truthy (Some (JStr s)) = (s \<noteq> [])"
| "json_truthy (Some (JArr xs)) = True"
| "json_truthy (Some (JObj kvs)) = True"

text \<open>\<^verbatim>\<open>a || d\<close> and \<^verbatim>\<open>a ?? d\<close> on a value read from a parsed body.\<close>

definition json_or :: "json option \<Rightarrow> json \<Rightarrow> json" where
  "json_or v d = (if json_truthy v then the v else d)"

definition json_nullish :: "json option \<Rightarrow> json \<Rightarrow> json" where
  "json_nullish v d = (case v of None \<Rightarrow> d | Some JNull \<Rightarrow> d | Some j \<Rightarrow> j)"

text \<open>
  A response: \<open>resp_ok\<close> is \<^verbatim>\<open>r.ok\<close> (a status in 200 to 299), \<open>resp_text\<close> the raw body,
  \<open>resp_json\<close> what \<^verbatim>\<open>JSON.parse\<close> makes of the body, \<open>None\<close> when it throws.
\<close>

record http_response =
  resp_ok :: bool
  resp_text :: string
  resp_json :: "json option"

datatype payload =
  PStrengthLog StrengthLog | PCardioLog CardioLog | PExercise Exercise | PPlanRow PlanRow

text \<open>
  A request: a GET with its search parameters, or a POST with the body
  \<^verbatim>\<open>{ action, sheetId, payload }\<close>. The bridge and the network are the environment: a
  function \<open>fetch\<close> from the request to a rejection or a response.
\<close>

datatype http_request =
  Get "(string \<times> string) list"
| Post string string payload

type_synonym fetch = "http_request \<Rightarrow> js_error + http_response"

text \<open>\<^verbatim>\<open>localStorage.getItem(SHEET_ID_KEY) || ""\<close>, the stored item being \<open>stored\<close>.\<close>

definition sheetId :: "string option \<Rightarrow> string" where
  "sheetId stored = or_else stored []"

subsection \<open>The helpers of \<^verbatim>\<open>src/App.tsx\<close>\<close>

definition getURL_App :: "string option \<Rightarrow> string \<Rightarrow> (string \<times> string) list \<Rightarrow> (string \<times> string) list" where
  "getURL_App stored action params =
     (let u0 = AList.update ''action'' action [];
          u1 = (if ''sheetId'' \<in> fst ` set u0 then u0 else AList.update ''sheetId'' (sheetId stored) u0)
      in foldl (\<lambda>u (k, v). AList.update k v u) u1 params)"

definition getJSON_App :: "fetch \<Rightarrow> string option \<Rightarrow> string \<Rightarrow> (string \<times> string) list \<Rightarrow> js_error + json" where
  "getJSON_App fetch stored action params =
     (case fetch (Get (getURL_App stored action params)) of
        Inl e \<Rightarrow> Inl e
      | Inr r \<Rightarrow>
          if \<not> resp_ok r then Inl (Error (action @ '' failed''))
          else (case resp_json r of None \<Rightarrow> Inl SyntaxError | Some j \<Rightarrow> Inr j))"

definition postJSON_App :: "fetch \<Rightarrow> string option \<Rightarrow> string \<Rightarrow> payload \<Rightarrow> js_error + json" where
  "postJSON_App fetch stored action pl =
     (case fetch (Post action (sheetId stored) pl) of
        Inl e \<Rightarrow> Inl e
      | Inr r \<Rightarrow>
          if \<not> resp_ok r then Inl (Error (action @ '' failed''))
          else (case resp_json r of None \<Rightarrow> Inl SyntaxError | Some j \<Rightarrow> Inr j))"

subsection \<open>The helpers of the other draft\<close>

definition getURL_part0 :: "string option \<Rightarrow> string \<Rightarrow> (string \<times> string) list \<Rightarrow> (string \<times> string) list" where
  "getURL_part0 stored action params =
     (let u0 = AList.update ''action'' action [];
          sid = or_else stored [];
          u1 = (if sid \<noteq> [] then AList.update ''sheetId'' sid u0 else u0)
      in foldl (\<lambda>u (k, v). AList.update k v u) u1 params)"

definition getJSON_part0 :: "fetch \<Rightarrow> string option \<Rightarrow> string \<Rightarrow> (string \<times> string) list \<Rightarrow> js_error + json" where
  "getJSON_part0 fetch stored action params =
     (case fetch (Get (getURL_part0 stored action params)) of
        Inl e \<Rightarrow> Inl e
      | Inr r \<Rightarrow>
          (case resp_json r of
             Some j \<Rightarrow> Inr j
           | None \<Rightarrow> Inl (Error (''API returned non-JSON. First 120: '' @ take 120 (resp_text r)))))"

definition postJSON_part0 :: "fetch \<Rightarrow> string option \<Rightarrow> string \<Rightarrow> payload \<Rightarrow> js_error + json" where
  "postJSON_part0 fetch stored action pl =
     (case fetch (Post action (or_else stored []) pl) of
        Inl e \<Rightarrow> Inl e
      | Inr r \<Rightarrow> (case resp_json r of None \<Rightarrow> Inl SyntaxError | Some j \<Rightarrow> Inr j))"

section \<open>The Sheets adapter\<close>

text \<open>
  The adapters cast what they read (\<^verbatim>\<open>as PlanRow[]\<close>) without checking it, so their
  results hold the JSON values as read. \<open>String_of\<close> stands for JavaScript's
  \<^verbatim>\<open>String(v)\<close>, a parameter of \<^verbatim>\<open>listDays\<close>.
\<close>

record Day =
  d_id :: string
  d_name :: "json option"

record 'a PlanForDay =
  pfd_plan :: 'a
  pfd_exercises :: 'a

record CardioLists =
  cardio_plan :: json
  cardio_logs :: json

fun map_sum :: "('a \<Rightarrow> 'e + 'b) \<Rightarrow> 'a list \<Rightarrow> 'e + 'b list" where
  "map_sum f [] = Inr []"
| "map_sum f (x # xs) =
     (case f x of
        Inl e \<Rightarrow> Inl e
      | Inr y \<Rightarrow> (case map_sum f xs of Inl e \<Rightarrow> Inl e | Inr ys \<Rightarrow> Inr (y # ys)))"

text \<open>
  \<^verbatim>\<open>(j.days as Array<...>).map(d => ({ id: String(d.day_id), name: d.day_name }))\<close>, the
  same in both drafts: \<^verbatim>\<open>.map\<close> on anything but an array is a TypeError.
\<close>

definition days_of_json :: "(json option \<Rightarrow> string) \<Rightarrow> json \<Rightarrow> js_error + Day list" where
  "days_of_json String_of j =
     (case js_get j ''days'' of
        Inl e \<Rightarrow> Inl e
      | Inr (Some (JArr ds)) \<Rightarrow>
          map_sum (\<lambda>d. case js_get d ''day_id'' of
                          Inl e \<Rightarrow> Inl e
                        | Inr i \<Rightarrow> (case js_get d ''day_name'' of
                                     Inl e \<Rightarrow> Inl e
                                   | Inr n \<Rightarrow> Inr \<lparr> d_id = String_of i, d_name = n \<rparr>)) ds
      | Inr _ \<Rightarrow> Inl TypeError)"

subsection \<open>\<^verbatim>\<open>GoogleSheetsAdapter\<close> of \<^verbatim>\<open>src/App.tsx\<close>\<close>

definition Sheets_listDays_App ::
  "(json option \<Rightarrow> string) \<Rightarrow> fetch \<Rightarrow> string option \<Rightarrow> js_error + Day list" where
  "Sheets_listDays_App String_of fetch stored =
     (case getJSON_App fetch stored ''listDays'' [] of
        Inl e \<Rightarrow> Inl e
      | Inr j \<Rightarrow> days_of_json String_of j)"

definition Sheets_getPlanForDay_App ::
  "fetch \<Rightarrow> string option \<Rightarrow> string \<Rightarrow> js_error + (json option) PlanForDay" where
  "Sheets_getPlanForDay_App fetch stored dayId =
     (case getJSON_App fetch stored ''getPlanForDay'' [(''day'', dayId)] of
        Inl e \<Rightarrow> Inl e
      | Inr j \<Rightarrow>
          (case js_get j ''plan'' of
             Inl e \<Rightarrow> Inl e
           | Inr p \<Rightarrow> (case js_get j ''exercises'' of
                        Inl e \<Rightarrow> Inl e
                      | Inr x \<Rightarrow> Inr \<lparr> pfd_plan = p, pfd_exercises = x \<rparr>)))"

definition Sheets_saveStrengthLog_App :: "fetch \<Rightarrow> string option \<Rightarrow> StrengthLog \<Rightarrow> js_error + OkResult" where
  "Sheets_saveStrengthLog_App fetch stored entry =
     (case postJSON_App fetch stored ''saveStrengthLog'' (PStrengthLog entry) of
        Inl e \<Rightarrow> Inl e
      | Inr _ \<Rightarrow> Inr \<lparr> ok = True \<rparr>)"

text \<open>\<^verbatim>\<open>const plan = (j.cardio ?? []); const logs = (j.logs ?? [])\<close>.\<close>

definition Sheets_listCardio_App :: "fetch \<Rightarrow> string option \<Rightarrow> js_error + CardioLists" where
  "Sheets_listCardio_App fetch stored =
     (case getJSON_App fetch stored ''listCardio'' [] of
        Inl e \<Rightarrow> Inl e
      | Inr j \<Rightarrow>
          (case js_get j ''cardio'' of
             Inl e \<Rightarrow> Inl e
           | Inr c \<Rightarrow> (case js_get j ''logs'' of
                        Inl e \<Rightarrow> Inl e
                      | Inr l \<Rightarrow> Inr \<lparr> cardio_plan = json_nullish c (JArr []),
                                       cardio_logs = json_nullish l (JArr []) \<rparr>)))"

definition Sheets_saveCardioLog_App :: "fetch \<Rightarrow> string option \<Rightarrow> CardioLog \<Rightarrow> js_error + OkResult" where
  "Sheets_saveCardioLog_App fetch stored entry =
     (case postJSON_App fetch stored ''saveCardioLog'' (PCardioLog entry) of
        Inl e \<Rightarrow> Inl e
      | Inr _ \<Rightarrow> Inr \<lparr> ok = True \<rparr>)"

definition Sheets_addExercise_App :: "fetch \<Rightarrow> string option \<Rightarrow> Exercise \<Rightarrow> js_error + AddResult" where
  "Sheets_addExercise_App fetch stored ex =
     (case postJSON_App fetch stored ''addExercise'' (PExercise ex) of
        Inl e \<Rightarrow> Inl e
      | Inr _ \<Rightarrow> Inr \<lparr> add_ok = True, add_exercise_id = ex_id ex \<rparr>)"

definition Sheets_addPlanRow_App :: "fetch \<Rightarrow> string option \<Rightarrow> PlanRow \<Rightarrow> js_error + OkResult" where
  "Sheets_addPlanRow_App fetch stored row =
     (case postJSON_App fetch stored ''addPlanRow'' (PPlanRow row) of
        Inl e \<Rightarrow> Inl e
      | Inr _ \<Rightarrow> Inr \<lparr> ok = True \<rparr>)"

subsection \<open>\<^verbatim>\<open>GoogleSheetsAdapter\<close> of the other draft\<close>

definition Sheets_listDays_part0 ::
  "(json option \<Rightarrow> string) \<Rightarrow> fetch \<Rightarrow> string option \<Rightarrow> js_error + Day list" where
  "Sheets_listDays_part0 String_of fetch stored =
     (case getJSON_part0 fetch stored ''listDays'' [] of
        Inl e \<Rightarrow> Inl e
      | Inr j \<Rightarrow> days_of_json String_of j)"

text \<open>\<^verbatim>\<open>plan: (j.plan || []), exercises: (j.exercises || {})\<close>.\<close>

definition Sheets_getPlanForDay_part0 ::
  "fetch \<Rightarrow> string option \<Rightarrow> string \<Rightarrow> js_error + json PlanForDay" where
  "Sheets_getPlanForDay_part0 fetch stored dayId =
     (case getJSON_part0 fetch stored ''getPlanForDay'' [(''day'', dayId)] of
        Inl e \<Rightarrow> Inl e
      | Inr j \<Rightarrow>
          (case js_get j ''plan'' of
             Inl e \<Rightarrow> Inl e
           | Inr p \<Rightarrow> (case js_get j ''exercises'' of
                        Inl e \<Rightarrow> Inl e
                      | Inr x \<Rightarrow> Inr \<lparr> pfd_plan = json_or p (JArr []),
                                       pfd_exercises = json_or x (JObj []) \<rparr>)))"

text \<open>
  \<^verbatim>\<open>plan: (j.plan || j.cardio || []), logs: (j.logs || [])\<close>, after a request that
  carries the date range when one is given.
\<close>

definition listCardio_params :: "(string \<times> string) option \<Rightarrow> (string \<times> string) list" where
  "listCardio_params dateRange =
     (case dateRange of
        None \<Rightarrow> []
      | Some (start_iso, end_iso) \<Rightarrow> [(''start_iso'', start_iso), (''end_iso'', end_iso)])"

definition Sheets_listCardio_part0 ::
  "fetch \<Rightarrow> string option \<Rightarrow> (string \<times> string) option \<Rightarrow> js_error + CardioLists" where
  "Sheets_listCardio_part0 fetch stored dateRange =
     (let params = listCardio_params dateRange
      in case getJSON_part0 fetch stored ''listCardio'' params of
           Inl e \<Rightarrow> Inl e
         | Inr j \<Rightarrow>
             (case js_get j ''plan'' of
                Inl e \<Rightarrow> Inl e
              | Inr p \<Rightarrow>
                  (case js_get j ''cardio'' of
                     Inl e \<Rightarrow> Inl e
                   | Inr c \<Rightarrow>
                       (case js_get j ''logs'' of
                          Inl e \<Rightarrow> Inl e
                        | Inr l \<Rightarrow>
                            Inr \<lparr> cardio_plan = json_or p (json_or c (JArr [])),
                                  cardio_logs = json_or l (JArr []) \<rparr>))))"

text \<open>The writes return the parsed body as it is: \<^verbatim>\<open>return await postJSON(...)\<close>.\<close>

definition Sheets_saveStrengthLog_part0 :: "fetch \<Rightarrow> string option \<Rightarrow> StrengthLog \<Rightarrow> js_error + json" where
  "Sheets_saveStrengthLog_part0 fetch stored entry =
     postJSON_part0 fetch stored ''saveStrengthLog'' (PStrengthLog entry)"

definition Sheets_saveCardioLog_part0 :: "fetch \<Rightarrow> string option \<Rightarrow> CardioLog \<Rightarrow> js_error + json" where
  "Sheets_saveCardioLog_part0 fetch stored entry =
     postJSON_part0 fetch stored ''saveCardioLog'' (PCardioLog entry)"

definition Sheets_addExercise_part0 :: "fetch \<Rightarrow> string option \<Rightarrow> Exercise \<Rightarrow> js_error + json" where
  "Sheets_addExercise_part0 fetch stored ex =
     postJSON_part0 fetch stored ''addExercise'' (PExercise ex)"

definition Sheets_addPlanRow_part0 :: "fetch \<Rightarrow> string option \<Rightarrow> PlanRow \<Rightarrow> js_error + json" where
  "Sheets_addPlanRow_part0 fetch stored row =
     postJSON_part0 fetch stored ''addPlanRow'' (PPlanRow row)"

subsection \<open>Example bridges\<close>

text \<open>
  A bridge that answers every request with status 200 and an HTML page (what a
  misdeployed web app does), one that answers with a failure status, and bridges that
  answer with status 200 and a given JSON value.
\<close>

definition bridge_html :: fetch where
  "bridge_html req =
     Inr \<lparr> resp_ok = True,
           resp_text = ''<!DOCTYPE html><html><head><title>Error</title></head><body><p>Script function not found: doGet</p><p>Please try again later.</p></body></html>'',
           resp_json = None \<rparr>"

definition bridge_failure :: fetch where
  "bridge_failure req =
     Inr \<lparr> resp_ok = False, resp_text = ''Internal Server Error'', resp_json = None \<rparr>"

definition bridge_json :: "string \<Rightarrow> json \<Rightarrow> fetch" where
  "bridge_json raw j req = Inr \<lparr> resp_ok = True, resp_text = raw, resp_json = Some j \<rparr>"

section \<open>The icon generator\<close>

text \<open>
  \<^verbatim>\<open>renderPadded\<close> of \<^verbatim>\<open>tools/gen-icons.mjs\<close>, as the geometry it hands to the image
  library: the canvas, the box the artwork is resized into (\<^verbatim>\<open>fit: "contain"\<close> yields
  an image of exactly that box) and where it is composited. JavaScript computes in
  binary floating point; the model computes in exact rationals. \<^verbatim>\<open>Math.round\<close> rounds
  to the nearest integer, a half upwards.
\<close>

definition PADDING :: rat where
  "PADDING = 12 / 100"

definition Math_round :: "rat \<Rightarrow> int" where
  "Math_round x = \<lfloor>x + 1 / 2\<rfloor>"

datatype background = Transparent | BG

record padded_icon =
  canvas_width :: int
  canvas_height :: int
  canvas_background :: background
  inner :: int
  left :: int
  top :: int

definition renderPadded :: "int \<Rightarrow> bool \<Rightarrow> padded_icon" where
  "renderPadded sz maskable =
     (let inner = Math_round (of_int sz * (1 - 2 * PADDING))
      in \<lparr> canvas_width = sz, canvas_height = sz,
           canvas_background = (if maskable then Transparent else BG),
           inner = inner,
           left = Math_round (of_int (sz - inner) / 2),
           top = Math_round (of_int (sz - inner) / 2) \<rparr>)"

section \<open>Properties of the renderer\<close>

lemma length_concat_const:
  "(\<And>x. x \<in> set xs \<Longrightarrow> length (f x) = n) \<Longrightarrow> length (concat (map f xs)) = length xs * n"
  by (induction xs) auto

text \<open>
  C2. A block with set count \<open>N\<close> and exercise list \<open>E\<close> renders exactly \<open>N * |E|\<close> cards,
  one for every pair of a set number in \<open>1..N\<close> and an exercise of \<open>E\<close>, set by set.
  \<^verbatim>\<open>Block\<close> never looks at the plan rows, so how many of them exist plays no role.
\<close>

theorem Block_cross_product:
  "length (children (Block name N E p)) = nat N * length E \<and>
   map (\<lambda>c. (card_setNumber c, card_exercise c)) (children (Block name N E p))
     = List.product [1..N] E"
proof
  show "length (children (Block name N E p)) = nat N * length E"
    by (simp add: Block_def length_concat_const)
  show "map (\<lambda>c. (card_setNumber c, card_exercise c)) (children (Block name N E p))
     = List.product [1..N] E"
    by (simp add: Block_def ExerciseCard_def List.product_concat_map map_concat comp_def)
qed

section \<open>Properties of the prescription line\<close>

lemma Block_card_cases:
  "c \<in> set (children (Block name N E p)) \<Longrightarrow>
     \<exists>ex \<in> set E. \<exists>s. c = ExerciseCard ex s (obj_get p (prop_key (read_id ex))) (read_id ex, s)"
  by (auto simp: Block_def)

text \<open>
  For a card whose exercise is a record with an id that is not a name every object
  inherits, the precedence is as specified: the block's override under that id when it
  is a non-empty string; else the exercise's own \<^verbatim>\<open>default_reps\<close> when that is a
  non-empty string; else the text "as assigned".
\<close>

lemma prescribed_reps_precedence:
  assumes "c \<in> set (children (Block name N E p))"
    and "card_exercise c = Val e" and "ex_id e = Some i" and "i \<notin> set Object_prototype_names"
  shows "(\<forall>s. p i = Some s \<and> s \<noteq> [] \<longrightarrow> prescribed_child c = Val s) \<and>
     (\<forall>d. \<not> truthy (p i) \<and> default_reps e = Some d \<and> d \<noteq> [] \<longrightarrow> prescribed_child c = Val d) \<and>
     (\<not> truthy (p i) \<and> \<not> truthy (default_reps e) \<longrightarrow> prescribed_child c = Val ''as assigned'')"
proof -
  from assms(1) obtain ex s where
    c: "c = ExerciseCard ex s (obj_get p (prop_key (read_id ex))) (read_id ex, s)"
    using Block_card_cases by blast
  with assms(2) have ex: "ex = Val e"
    by (simp add: ExerciseCard_def)
  have k: "obj_get p (prop_key (read_id ex)) = map_option Val (p i)"
    using assms(3,4) by (simp add: ex read_id_def prop_key_def obj_get_def split: option.splits)
  show ?thesis
    unfolding c k
    by (auto simp: ex ExerciseCard_def or_else_def truthy_def read_default_reps_def
        split: option.splits)
qed

text \<open>
  C8. The precedence fails for an exercise whose id is a name that every object
  inherits and that has no override: \<^verbatim>\<open>prescribedByExercise["constructor"]\<close> is then the
  inherited function, which is truthy, so the card is given that function as its
  prescription and shows neither the exercise's \<^verbatim>\<open>default_reps\<close> nor "as assigned". The
  same exercise under an ordinary id shows its default.
\<close>

theorem prescribed_reps_inherited_id:
  "map prescribed_child
       (children (Block ''Glute Strength Block'' 1
          [Val (ex_glute_bridge\<lparr> ex_id := Some ''constructor'' \<rparr>)] Map.empty))
     = [Proto ''constructor''] \<and>
   default_reps (ex_glute_bridge\<lparr> ex_id := Some ''constructor'' \<rparr>) = Some ''8 to 10'' \<and>
   map prescribed_child
       (children (Block ''Glute Strength Block'' 1 [Val ex_glute_bridge] Map.empty))
     = [Val ''8 to 10''] \<and>
   map prescribed_child
       (children (Block ''Glute Strength Block'' 1 [Val ex_glute_bridge, Val ex_banded_deadbug]
          [''ex_banded_deadbug'' \<mapsto> ''12'']))
     = [Val ''8 to 10'', Val ''12'']"
  by (simp add: Block_def ExerciseCard_def obj_get_def Object_prototype_names_def prop_key_def
      read_id_def read_default_reps_def or_else_def ex_glute_bridge_def ex_banded_deadbug_def)

section \<open>Properties of saving a set\<close>

lemma find_first_index:
  "find P xs = Some x \<Longrightarrow> \<exists>i < length xs. xs ! i = x \<and> P x \<and> (\<forall>j < i. \<not> P (xs ! j))"
  by (auto simp: find_Some_iff)

text \<open>
  C3. Saving a set for \<open>(eid, setno)\<close>: when no row of the loaded plan has that
  exercise id, the adapter is not called and its state is unchanged. Otherwise the log
  handed to \<^verbatim>\<open>saveStrengthLog\<close> takes its day id and block name from the first row of
  the plan with that exercise id (no earlier row has it), whatever block the card
  belongs to, and carries the given set number, exercise id and entered data.
\<close>

theorem onSave_first_matching_row:
  "((\<forall>p \<in> set plan. exercise_id p \<noteq> eid) \<longrightarrow> onSave save today plan eid setno data db = db) \<and>
   ((\<exists>p \<in> set plan. exercise_id p = eid) \<longrightarrow>
      (\<exists>i < length plan.
         exercise_id (plan ! i) = eid \<and>
         (\<forall>j < i. exercise_id (plan ! j) \<noteq> eid) \<and>
         onSave save today plan eid setno data db =
           snd (save \<lparr> log_date_iso = today,
                       log_day_id = day_id (plan ! i),
                       log_block_name = block_name (plan ! i),
                       log_set_number = setno,
                       log_exercise_id = eid,
                       reps_done = data_reps_done data,
                       load = data_load data,
                       log_notes = data_notes data \<rparr> db)))"
proof (intro conjI impI)
  assume "\<forall>p \<in> set plan. exercise_id p \<noteq> eid"
  then have "find (\<lambda>p. exercise_id p = eid) plan = None"
    by (simp add: find_None_iff)
  then show "onSave save today plan eid setno data db = db"
    by (simp add: onSave_def)
next
  assume "\<exists>p \<in> set plan. exercise_id p = eid"
  then obtain r where r: "find (\<lambda>p. exercise_id p = eid) plan = Some r"
    by (cases "find (\<lambda>p. exercise_id p = eid) plan") (auto simp: find_None_iff)
  from find_first_index [OF r] obtain i where
    i: "i < length plan" "plan ! i = r" "exercise_id r = eid"
       "\<forall>j < i. exercise_id (plan ! j) \<noteq> eid"
    by blast
  show "\<exists>i < length plan.
         exercise_id (plan ! i) = eid \<and>
         (\<forall>j < i. exercise_id (plan ! j) \<noteq> eid) \<and>
         onSave save today plan eid setno data db =
           snd (save \<lparr> log_date_iso = today,
                       log_day_id = day_id (plan ! i),
                       log_block_name = block_name (plan ! i),
                       log_set_number = setno,
                       log_exercise_id = eid,
                       reps_done = data_reps_done data,
                       load = data_load data,
                       log_notes = data_notes data \<rparr> db)"
    using i r by (intro exI [of _ i]) (simp add: onSave_def)
qed

theorem onSave_first_matching_row_witness:
  "onSave (\<lambda>l d. MockAdapter_saveStrengthLog l d) ''2025-08-20'' (db_plan MOCK_DB) ''ex_unknown'' 2
       \<lparr> data_reps_done = Some ''8'', data_load = Some ''20 kg'', data_notes = Some [] \<rparr> MOCK_DB
     = MOCK_DB \<and>
   db_strengthLogs
     (onSave (\<lambda>l d. MockAdapter_saveStrengthLog l d) ''2025-08-20'' (db_plan MOCK_DB) ''ex_banded_deadbug'' 2
        \<lparr> data_reps_done = Some ''8'', data_load = Some ''20 kg'', data_notes = Some [] \<rparr> MOCK_DB)
     = [\<lparr> log_date_iso = ''2025-08-20'', log_day_id = ''Day 1'', log_block_name = ''Core Block'',
          log_set_number = 2, log_exercise_id = ''ex_banded_deadbug'',
          reps_done = Some ''8'', load = Some ''20 kg'', log_notes = Some [] \<rparr>]"
proof -
  let ?d = "\<lparr> data_reps_done = Some ''8'', data_load = Some ''20 kg'', data_notes = Some [] \<rparr>"
  have none: "\<forall>p \<in> set (db_plan MOCK_DB). exercise_id p \<noteq> ''ex_unknown''"
    by (simp add: MOCK_DB_def seed_row_def)
  have a: "onSave (\<lambda>l d. MockAdapter_saveStrengthLog l d) ''2025-08-20'' (db_plan MOCK_DB) ''ex_unknown'' 2 ?d MOCK_DB
      = MOCK_DB"
    using onSave_first_matching_row
      [of "db_plan MOCK_DB" "''ex_unknown''" "\<lambda>l d. MockAdapter_saveStrengthLog l d" "''2025-08-20''" 2 ?d MOCK_DB] none
    by blast
  have b: "db_strengthLogs
     (onSave (\<lambda>l d. MockAdapter_saveStrengthLog l d) ''2025-08-20'' (db_plan MOCK_DB) ''ex_banded_deadbug'' 2 ?d MOCK_DB)
     = [\<lparr> log_date_iso = ''2025-08-20'', log_day_id = ''Day 1'', log_block_name = ''Core Block'',
          log_set_number = 2, log_exercise_id = ''ex_banded_deadbug'',
          reps_done = Some ''8'', load = Some ''20 kg'', log_notes = Some [] \<rparr>]"
    by (simp add: onSave_def MOCK_DB_def seed_row_def MockAdapter_saveStrengthLog_def)
  from a b show ?thesis by simp
qed

section \<open>Properties of the mock adapter's addExercise\<close>

text \<open>
  C4, as the code has it by design. In \<^verbatim>\<open>src/App.tsx\<close>: an exercise with a non-empty id
  is stored unchanged under that id; one without (missing or empty) gets, when the
  random number's base-36 text has ten characters or more, the id \<^verbatim>\<open>ex_\<close> followed by
  the eight characters 2 to 9 of that text, and is stored under that id with the id
  filled in; both return \<^verbatim>\<open>ok = true\<close> with the id used. In the other draft the exercise
  is stored unchanged under its own id (under \<^verbatim>\<open>undefined\<close> when it has none), no id
  is generated, and \<^verbatim>\<open>ok = true\<close> comes back with the exercise's own id, if any. (The
  key \<^verbatim>\<open>__proto__\<close> is left aside.)
\<close>

theorem MockAdapter_addExercise_ids:
  "(\<forall>s. ex_id ex = Some s \<and> s \<noteq> [] \<and> s \<noteq> ''__proto__'' \<longrightarrow>
      MockAdapter_addExercise_App rnd36 ex db =
        (\<lparr> add_ok = True, add_exercise_id = Some s \<rparr>,
         db\<lparr> db_exercises := (db_exercises db)(s \<mapsto> ex) \<rparr>)) \<and>
   ((ex_id ex = None \<or> ex_id ex = Some []) \<and> 10 \<le> length rnd36 \<longrightarrow>
      (\<exists>tok. tok = take 8 (drop 2 rnd36) \<and> length tok = 8 \<and>
         MockAdapter_addExercise_App rnd36 ex db =
           (\<lparr> add_ok = True, add_exercise_id = Some (''ex_'' @ tok) \<rparr>,
            db\<lparr> db_exercises :=
                  (db_exercises db)(''ex_'' @ tok \<mapsto> ex\<lparr> ex_id := Some (''ex_'' @ tok) \<rparr>) \<rparr>))) \<and>
   (\<forall>s. ex_id ex = Some s \<and> s \<noteq> ''__proto__'' \<longrightarrow>
      MockAdapter_addExercise_part0 ex db =
        (\<lparr> add_ok = True, add_exercise_id = Some s \<rparr>,
         db\<lparr> db_exercises := (db_exercises db)(s \<mapsto> ex) \<rparr>)) \<and>
   (ex_id ex = None \<longrightarrow>
      MockAdapter_addExercise_part0 ex db =
        (\<lparr> add_ok = True, add_exercise_id = None \<rparr>,
         db\<lparr> db_exercises := (db_exercises db)(''undefined'' \<mapsto> ex) \<rparr>))"
proof (intro conjI allI impI)
  fix s assume a: "ex_id ex = Some s \<and> s \<noteq> [] \<and> s \<noteq> ''__proto__''"
  then have e: "or_else (ex_id ex) (''ex_'' @ take 8 (drop 2 rnd36)) = s" "ex\<lparr> ex_id := Some s \<rparr> = ex"
    by (simp_all add: or_else_def)
  from a have "s \<noteq> ''__proto__''" by simp
  then show "MockAdapter_addExercise_App rnd36 ex db =
        (\<lparr> add_ok = True, add_exercise_id = Some s \<rparr>,
         db\<lparr> db_exercises := (db_exercises db)(s \<mapsto> ex) \<rparr>)"
    unfolding MockAdapter_addExercise_App_def Let_def e by (simp add: store_exercise_def)
next
  assume a: "(ex_id ex = None \<or> ex_id ex = Some []) \<and> 10 \<le> length rnd36"
  then have e: "or_else (ex_id ex) (''ex_'' @ take 8 (drop 2 rnd36)) = ''ex_'' @ take 8 (drop 2 rnd36)"
    by (auto simp: or_else_def)
  have n: "''ex_'' @ take 8 (drop 2 rnd36) \<noteq> ''__proto__''"
    by simp
  from a have "min (length rnd36 - 2) 8 = 8"
    by linarith
  then have len: "length (take 8 (drop 2 rnd36)) = 8"
    by simp
  show "\<exists>tok. tok = take 8 (drop 2 rnd36) \<and> length tok = 8 \<and>
         MockAdapter_addExercise_App rnd36 ex db =
           (\<lparr> add_ok = True, add_exercise_id = Some (''ex_'' @ tok) \<rparr>,
            db\<lparr> db_exercises :=
                  (db_exercises db)(''ex_'' @ tok \<mapsto> ex\<lparr> ex_id := Some (''ex_'' @ tok) \<rparr>) \<rparr>)"
    unfolding MockAdapter_addExercise_App_def Let_def e store_exercise_def
    using n len by simp
next
  fix s assume "ex_id ex = Some s \<and> s \<noteq> ''__proto__''"
  then show "MockAdapter_addExercise_part0 ex db =
        (\<lparr> add_ok = True, add_exercise_id = Some s \<rparr>,
         db\<lparr> db_exercises := (db_exercises db)(s \<mapsto> ex) \<rparr>)"
    by (simp add: MockAdapter_addExercise_part0_def store_exercise_def prop_key_def)
next
  assume "ex_id ex = None"
  then show "MockAdapter_addExercise_part0 ex db =
        (\<lparr> add_ok = True, add_exercise_id = None \<rparr>,
         db\<lparr> db_exercises := (db_exercises db)(''undefined'' \<mapsto> ex) \<rparr>)"
    by (simp add: MockAdapter_addExercise_part0_def store_exercise_def prop_key_def)
qed

theorem MockAdapter_addExercise_ids_witness:
  "MockAdapter_addExercise_App ''0.4fzyo82mvyr'' ex_glute_bridge MOCK_DB
     = (\<lparr> add_ok = True, add_exercise_id = Some ''ex_glute_bridge'' \<rparr>,
        MOCK_DB\<lparr> db_exercises := (db_exercises MOCK_DB)(''ex_glute_bridge'' \<mapsto> ex_glute_bridge) \<rparr>) \<and>
   MockAdapter_addExercise_App ''0.4fzyo82mvyr'' (ex_glute_bridge\<lparr> ex_id := None \<rparr>) MOCK_DB
     = (\<lparr> add_ok = True, add_exercise_id = Some ''ex_4fzyo82m'' \<rparr>,
        MOCK_DB\<lparr> db_exercises :=
          (db_exercises MOCK_DB)(''ex_4fzyo82m'' \<mapsto> ex_glute_bridge\<lparr> ex_id := Some ''ex_4fzyo82m'' \<rparr>) \<rparr>) \<and>
   MockAdapter_addExercise_part0 ex_banded_deadbug MOCK_DB
     = (\<lparr> add_ok = True, add_exercise_id = Some ''ex_banded_deadbug'' \<rparr>,
        MOCK_DB\<lparr> db_exercises := (db_exercises MOCK_DB)(''ex_banded_deadbug'' \<mapsto> ex_banded_deadbug) \<rparr>) \<and>
   MockAdapter_addExercise_part0 (ex_glute_bridge\<lparr> ex_id := None \<rparr>) MOCK_DB
     = (\<lparr> add_ok = True, add_exercise_id = None \<rparr>,
        MOCK_DB\<lparr> db_exercises :=
          (db_exercises MOCK_DB)(''undefined'' \<mapsto> ex_glute_bridge\<lparr> ex_id := None \<rparr>) \<rparr>)"
proof -
  let ?e = "ex_glute_bridge\<lparr> ex_id := None \<rparr>"
  let ?r = "''0.4fzyo82mvyr''"
  have h1: "ex_id ex_glute_bridge = Some ''ex_glute_bridge'' \<and> ''ex_glute_bridge'' \<noteq> [] \<and>
      ''ex_glute_bridge'' \<noteq> ''__proto__''"
    by (simp add: ex_glute_bridge_def)
  have h2: "(ex_id ?e = None \<or> ex_id ?e = Some []) \<and> 10 \<le> length ?r"
    by simp
  have h3: "ex_id ex_banded_deadbug = Some ''ex_banded_deadbug'' \<and> ''ex_banded_deadbug'' \<noteq> ''__proto__''"
    by (simp add: ex_banded_deadbug_def)
  have h4: "ex_id ?e = None"
    by simp
  have a: "MockAdapter_addExercise_App ?r ex_glute_bridge MOCK_DB
     = (\<lparr> add_ok = True, add_exercise_id = Some ''ex_glute_bridge'' \<rparr>,
        MOCK_DB\<lparr> db_exercises := (db_exercises MOCK_DB)(''ex_glute_bridge'' \<mapsto> ex_glute_bridge) \<rparr>)"
    using MockAdapter_addExercise_ids [of ex_glute_bridge ?r MOCK_DB] h1 by blast
  have b: "MockAdapter_addExercise_App ?r ?e MOCK_DB
     = (\<lparr> add_ok = True, add_exercise_id = Some ''ex_4fzyo82m'' \<rparr>,
        MOCK_DB\<lparr> db_exercises :=
          (db_exercises MOCK_DB)(''ex_4fzyo82m'' \<mapsto> ?e\<lparr> ex_id := Some ''ex_4fzyo82m'' \<rparr>) \<rparr>)"
    using MockAdapter_addExercise_ids [of ?e ?r MOCK_DB] h2 by simp
  have c: "MockAdapter_addExercise_part0 ex_banded_deadbug MOCK_DB
     = (\<lparr> add_ok = True, add_exercise_id = Some ''ex_banded_deadbug'' \<rparr>,
        MOCK_DB\<lparr> db_exercises := (db_exercises MOCK_DB)(''ex_banded_deadbug'' \<mapsto> ex_banded_deadbug) \<rparr>)"
    using MockAdapter_addExercise_ids [of ex_banded_deadbug ?r MOCK_DB] h3 by blast
  have d: "MockAdapter_addExercise_part0 ?e MOCK_DB
     = (\<lparr> add_ok = True, add_exercise_id = None \<rparr>,
        MOCK_DB\<lparr> db_exercises := (db_exercises MOCK_DB)(''undefined'' \<mapsto> ?e) \<rparr>)"
    using MockAdapter_addExercise_ids [of ?e ?r MOCK_DB] h4 by blast
  from a b c d show ?thesis by simp
qed

text \<open>
  The claim as stated fails in the other draft: for an exercise without an id nothing
  is generated, the record lands under the key \<^verbatim>\<open>undefined\<close> and the caller gets no id;
  an empty id is kept as it is.
\<close>

theorem MockAdapter_addExercise_counterexample:
  "add_exercise_id (fst (MockAdapter_addExercise_part0 (ex_glute_bridge\<lparr> ex_id := None \<rparr>) MOCK_DB)) = None \<and>
   db_exercises (snd (MockAdapter_addExercise_part0 (ex_glute_bridge\<lparr> ex_id := None \<rparr>) MOCK_DB)) ''undefined''
     = Some (ex_glute_bridge\<lparr> ex_id := None \<rparr>) \<and>
   add_exercise_id (fst (MockAdapter_addExercise_part0 (ex_glute_bridge\<lparr> ex_id := Some [] \<rparr>) MOCK_DB))
     = Some []"
  by (simp add: MockAdapter_addExercise_part0_def store_exercise_def prop_key_def)

section \<open>Properties of the Sheets adapter\<close>

lemma getJSON_part0_non_JSON:
  "fetch (Get (getURL_part0 stored action params)) = Inr r \<Longrightarrow> resp_json r = None \<Longrightarrow>
     getJSON_part0 fetch stored action params
       = Inl (Error (''API returned non-JSON. First 120: '' @ take 120 (resp_text r)))"
  by (simp add: getJSON_part0_def)

lemma getJSON_App_failure_status:
  "fetch (Get (getURL_App stored action params)) = Inr r \<Longrightarrow> \<not> resp_ok r \<Longrightarrow>
     getJSON_App fetch stored action params = Inl (Error (action @ '' failed''))"
  by (simp add: getJSON_App_def)

lemma getJSON_App_non_JSON:
  "fetch (Get (getURL_App stored action params)) = Inr r \<Longrightarrow> resp_ok r \<Longrightarrow> resp_json r = None \<Longrightarrow>
     getJSON_App fetch stored action params = Inl SyntaxError"
  by (simp add: getJSON_App_def)

text \<open>
  C7, as the code has it. In the draft whose \<^verbatim>\<open>getJSON\<close> reads the body as text, each of
  the three reads, when the body does not parse, fails with the error
  \<^verbatim>\<open>API returned non-JSON. First 120:\<close> followed by the first 120 characters of the
  body. In \<^verbatim>\<open>src/App.tsx\<close>, \<^verbatim>\<open>getJSON\<close> returns \<^verbatim>\<open>r.json()\<close>: with a success status and a
  body that does not parse, each read fails with that call's own parse failure; with
  a failure status it fails with the error that names the action, whatever the body.
\<close>

theorem read_non_JSON_body:
  "(fetch (Get (getURL_part0 stored ''listDays'' [])) = Inr r \<and> resp_json r = None \<longrightarrow>
      Sheets_listDays_part0 String_of fetch stored
        = Inl (Error (''API returned non-JSON. First 120: '' @ take 120 (resp_text r)))) \<and>
   (fetch (Get (getURL_part0 stored ''getPlanForDay'' [(''day'', d)])) = Inr r \<and> resp_json r = None \<longrightarrow>
      Sheets_getPlanForDay_part0 fetch stored d
        = Inl (Error (''API returned non-JSON. First 120: '' @ take 120 (resp_text r)))) \<and>
   (fetch (Get (getURL_part0 stored ''listCardio'' (listCardio_params dr))) = Inr r \<and> resp_json r = None \<longrightarrow>
      Sheets_listCardio_part0 fetch stored dr
        = Inl (Error (''API returned non-JSON. First 120: '' @ take 120 (resp_text r)))) \<and>
   (fetch (Get (getURL_App stored ''listDays'' [])) = Inr r \<and> resp_ok r \<and> resp_json r = None \<longrightarrow>
      Sheets_listDays_App String_of fetch stored = Inl SyntaxError) \<and>
   (fetch (Get (getURL_App stored ''getPlanForDay'' [(''day'', d)])) = Inr r \<and> resp_ok r \<and> resp_json r = None \<longrightarrow>
      Sheets_getPlanForDay_App fetch stored d = Inl SyntaxError) \<and>
   (fetch (Get (getURL_App stored ''listCardio'' [])) = Inr r \<and> resp_ok r \<and> resp_json r = None \<longrightarrow>
      Sheets_listCardio_App fetch stored = Inl SyntaxError) \<and>
   (fetch (Get (getURL_App stored ''listDays'' [])) = Inr r \<and> \<not> resp_ok r \<longrightarrow>
      Sheets_listDays_App String_of fetch stored = Inl (Error ''listDays failed'')) \<and>
   (fetch (Get (getURL_App stored ''getPlanForDay'' [(''day'', d)])) = Inr r \<and> \<not> resp_ok r \<longrightarrow>
      Sheets_getPlanForDay_App fetch stored d = Inl (Error ''getPlanForDay failed'')) \<and>
   (fetch (Get (getURL_App stored ''listCardio'' [])) = Inr r \<and> \<not> resp_ok r \<longrightarrow>
      Sheets_listCardio_App fetch stored = Inl (Error ''listCardio failed''))"
  by (simp add: Sheets_listDays_part0_def Sheets_getPlanForDay_part0_def Sheets_listCardio_part0_def
      Sheets_listDays_App_def Sheets_getPlanForDay_App_def Sheets_listCardio_App_def
      getJSON_part0_non_JSON getJSON_App_non_JSON getJSON_App_failure_status)

theorem read_non_JSON_body_witness:
  "Sheets_listDays_part0 (\<lambda>v. []) bridge_html None
     = Inl (Error ''API returned non-JSON. First 120: <!DOCTYPE html><html><head><title>Error</title></head><body><p>Script function not found: doGet</p><p>Please try again l'') \<and>
   Sheets_getPlanForDay_part0 bridge_html None ''Day 1''
     = Inl (Error ''API returned non-JSON. First 120: <!DOCTYPE html><html><head><title>Error</title></head><body><p>Script function not found: doGet</p><p>Please try again l'') \<and>
   Sheets_listCardio_part0 bridge_html None None
     = Inl (Error ''API returned non-JSON. First 120: <!DOCTYPE html><html><head><title>Error</title></head><body><p>Script function not found: doGet</p><p>Please try again l'') \<and>
   Sheets_listDays_App (\<lambda>v. []) bridge_html None = Inl SyntaxError \<and>
   Sheets_getPlanForDay_App bridge_html None ''Day 1'' = Inl SyntaxError \<and>
   Sheets_listCardio_App bridge_html None = Inl SyntaxError \<and>
   Sheets_listDays_App (\<lambda>v. []) bridge_failure None = Inl (Error ''listDays failed'') \<and>
   Sheets_getPlanForDay_App bridge_failure None ''Day 1'' = Inl (Error ''getPlanForDay failed'') \<and>
   Sheets_listCardio_App bridge_failure None = Inl (Error ''listCardio failed'')"
proof -
  have a: "Sheets_listDays_part0 (\<lambda>v. []) bridge_html None
     = Inl (Error ''API returned non-JSON. First 120: <!DOCTYPE html><html><head><title>Error</title></head><body><p>Script function not found: doGet</p><p>Please try again l'') \<and>
   Sheets_getPlanForDay_part0 bridge_html None ''Day 1''
     = Inl (Error ''API returned non-JSON. First 120: <!DOCTYPE html><html><head><title>Error</title></head><body><p>Script function not found: doGet</p><p>Please try again l'') \<and>
   Sheets_listCardio_part0 bridge_html None None
     = Inl (Error ''API returned non-JSON. First 120: <!DOCTYPE html><html><head><title>Error</title></head><body><p>Script function not found: doGet</p><p>Please try again l'') \<and>
   Sheets_listDays_App (\<lambda>v. []) bridge_html None = Inl SyntaxError \<and>
   Sheets_getPlanForDay_App bridge_html None ''Day 1'' = Inl SyntaxError \<and>
   Sheets_listCardio_App bridge_html None = Inl SyntaxError"
    using read_non_JSON_body [of bridge_html None
      "\<lparr> resp_ok = True,
         resp_text = ''<!DOCTYPE html><html><head><title>Error</title></head><body><p>Script function not found: doGet</p><p>Please try again later.</p></body></html>'',
         resp_json = None \<rparr>" "\<lambda>v. []" "''Day 1''" None]
    by (simp add: bridge_html_def)
  have b: "Sheets_listDays_App (\<lambda>v. []) bridge_failure None = Inl (Error ''listDays failed'') \<and>
   Sheets_getPlanForDay_App bridge_failure None ''Day 1'' = Inl (Error ''getPlanForDay failed'') \<and>
   Sheets_listCardio_App bridge_failure None = Inl (Error ''listCardio failed'')"
    using read_non_JSON_body [of bridge_failure None
      "\<lparr> resp_ok = False, resp_text = ''Internal Server Error'', resp_json = None \<rparr>"
      "\<lambda>v. []" "''Day 1''" None]
    by (simp add: bridge_failure_def)
  from a b show ?thesis by simp
qed

text \<open>
  The claim as stated fails in \<^verbatim>\<open>src/App.tsx\<close>: a read answered with status 200 and an
  HTML page fails with the parse failure itself, which carries nothing of the body.
\<close>

theorem read_non_JSON_body_counterexample:
  "Sheets_listCardio_App bridge_html None = Inl SyntaxError \<and>
   Sheets_getPlanForDay_App bridge_html None ''Day 1'' = Inl SyntaxError \<and>
   Sheets_listCardio_App bridge_html None
     \<noteq> Inl (Error ''API returned non-JSON. First 120: <!DOCTYPE html><html><head><title>Error</title></head><body><p>Script function not found: doGet</p><p>Please try again l'')"
  by (simp add: Sheets_listCardio_App_def Sheets_getPlanForDay_App_def getJSON_App_def bridge_html_def)

text \<open>
  C5, as the code has it. In the draft that reads \<^verbatim>\<open>j.plan || j.cardio || []\<close>: for a
  body that is an object, the plan list is the value under \<^verbatim>\<open>plan\<close> when that is truthy,
  else the value under \<^verbatim>\<open>cardio\<close> when that is truthy, else the empty list; the logs are
  the empty list when \<^verbatim>\<open>logs\<close> is absent; so a body with the list under \<^verbatim>\<open>cardio\<close> and
  one with the same list under \<^verbatim>\<open>plan\<close> give the same result. In \<^verbatim>\<open>src/App.tsx\<close> the plan
  list is the value under \<^verbatim>\<open>cardio\<close> alone (the empty list when that is absent or null),
  whatever stands under \<^verbatim>\<open>plan\<close>.
\<close>

theorem listCardio_plan_key:
  "(getJSON_part0 fetch stored ''listCardio'' (listCardio_params dr) = Inr (JObj kvs) \<longrightarrow>
      (\<exists>res. Sheets_listCardio_part0 fetch stored dr = Inr res \<and>
         (json_truthy (map_of kvs ''plan'') \<longrightarrow> Some (cardio_plan res) = map_of kvs ''plan'') \<and>
         (\<not> json_truthy (map_of kvs ''plan'') \<and> json_truthy (map_of kvs ''cardio'') \<longrightarrow>
            Some (cardio_plan res) = map_of kvs ''cardio'') \<and>
         (\<not> json_truthy (map_of kvs ''plan'') \<and> \<not> json_truthy (map_of kvs ''cardio'') \<longrightarrow>
            cardio_plan res = JArr []) \<and>
         (map_of kvs ''logs'' = None \<longrightarrow> cardio_logs res = JArr []))) \<and>
   (getJSON_part0 fetch stored ''listCardio'' (listCardio_params dr) = Inr (JObj [(''cardio'', v)]) \<and>
    getJSON_part0 fetch' stored ''listCardio'' (listCardio_params dr) = Inr (JObj [(''plan'', v)]) \<longrightarrow>
      Sheets_listCardio_part0 fetch stored dr = Sheets_listCardio_part0 fetch' stored dr) \<and>
   (getJSON_App fetch stored ''listCardio'' [] = Inr (JObj kvs) \<longrightarrow>
      Sheets_listCardio_App fetch stored
        = Inr \<lparr> cardio_plan = json_nullish (map_of kvs ''cardio'') (JArr []),
                cardio_logs = json_nullish (map_of kvs ''logs'') (JArr []) \<rparr>)"
proof (intro conjI impI)
  assume "getJSON_part0 fetch stored ''listCardio'' (listCardio_params dr) = Inr (JObj kvs)"
  then have "Sheets_listCardio_part0 fetch stored dr =
      Inr \<lparr> cardio_plan = json_or (map_of kvs ''plan'') (json_or (map_of kvs ''cardio'') (JArr [])),
            cardio_logs = json_or (map_of kvs ''logs'') (JArr []) \<rparr>"
    by (simp add: Sheets_listCardio_part0_def js_get_def)
  then show "\<exists>res. Sheets_listCardio_part0 fetch stored dr = Inr res \<and>
         (json_truthy (map_of kvs ''plan'') \<longrightarrow> Some (cardio_plan res) = map_of kvs ''plan'') \<and>
         (\<not> json_truthy (map_of kvs ''plan'') \<and> json_truthy (map_of kvs ''cardio'') \<longrightarrow>
            Some (cardio_plan res) = map_of kvs ''cardio'') \<and>
         (\<not> json_truthy (map_of kvs ''plan'') \<and> \<not> json_truthy (map_of kvs ''cardio'') \<longrightarrow>
            cardio_plan res = JArr []) \<and>
         (map_of kvs ''logs'' = None \<longrightarrow> cardio_logs res = JArr [])"
    by (cases "map_of kvs ''plan''"; cases "map_of kvs ''cardio''") (auto simp: json_or_def)
next
  assume "getJSON_part0 fetch stored ''listCardio'' (listCardio_params dr) = Inr (JObj [(''cardio'', v)]) \<and>
    getJSON_part0 fetch' stored ''listCardio'' (listCardio_params dr) = Inr (JObj [(''plan'', v)])"
  then show "Sheets_listCardio_part0 fetch stored dr = Sheets_listCardio_part0 fetch' stored dr"
    by (simp add: Sheets_listCardio_part0_def js_get_def json_or_def)
next
  assume "getJSON_App fetch stored ''listCardio'' [] = Inr (JObj kvs)"
  then show "Sheets_listCardio_App fetch stored
        = Inr \<lparr> cardio_plan = json_nullish (map_of kvs ''cardio'') (JArr []),
                cardio_logs = json_nullish (map_of kvs ''logs'') (JArr []) \<rparr>"
    by (simp add: Sheets_listCardio_App_def js_get_def)
qed

theorem listCardio_plan_key_witness: \<open>
   Sheets_listCardio_part0
       (bridge_json ''{"cardio":[{"activity":"Ride"}]}'' (JObj [(''cardio'', JArr [JObj [(''activity'', JStr ''Ride'')]])]))
       None None
     = Inr \<lparr> cardio_plan = JArr [JObj [(''activity'', JStr ''Ride'')]], cardio_logs = JArr [] \<rparr> \<and>
   Sheets_listCardio_part0
       (bridge_json ''{"cardio":[{"activity":"Ride"}]}'' (JObj [(''cardio'', JArr [JObj [(''activity'', JStr ''Ride'')]])]))
       None None
     = Sheets_listCardio_part0
       (bridge_json ''{"plan":[{"activity":"Ride"}]}'' (JObj [(''plan'', JArr [JObj [(''activity'', JStr ''Ride'')]])]))
       None None \<and>
   Sheets_listCardio_App
       (bridge_json ''{"cardio":[{"activity":"Ride"}]}'' (JObj [(''cardio'', JArr [JObj [(''activity'', JStr ''Ride'')]])]))
       None
     = Inr \<lparr> cardio_plan = JArr [JObj [(''activity'', JStr ''Ride'')]], cardio_logs = JArr [] \<rparr>\<close>
proof -
  let ?v = "JArr [JObj [(''activity'', JStr ''Ride'')]]"
  let ?fc = \<open>bridge_json ''{"cardio":[{"activity":"Ride"}]}'' (JObj [(''cardio'', ?v)])\<close>
  let ?fp = \<open>bridge_json ''{"plan":[{"activity":"Ride"}]}'' (JObj [(''plan'', ?v)])\<close>
  have gc: "getJSON_part0 ?fc None ''listCardio'' (listCardio_params None) = Inr (JObj [(''cardio'', ?v)])"
    by (simp add: getJSON_part0_def bridge_json_def)
  have gp: "getJSON_part0 ?fp None ''listCardio'' (listCardio_params None) = Inr (JObj [(''plan'', ?v)])"
    by (simp add: getJSON_part0_def bridge_json_def)
  have ga: "getJSON_App ?fc None ''listCardio'' [] = Inr (JObj [(''cardio'', ?v)])"
    by (simp add: getJSON_App_def bridge_json_def)
  have a: "Sheets_listCardio_part0 ?fc None None = Inr \<lparr> cardio_plan = ?v, cardio_logs = JArr [] \<rparr>"
    using listCardio_plan_key [of ?fc None None "[(''cardio'', ?v)]" ?v ?fp] gc by auto
  have b: "Sheets_listCardio_part0 ?fc None None = Sheets_listCardio_part0 ?fp None None"
    using listCardio_plan_key [of ?fc None None "[(''cardio'', ?v)]" ?v ?fp] gc gp by blast
  have c: "Sheets_listCardio_App ?fc None = Inr \<lparr> cardio_plan = ?v, cardio_logs = JArr [] \<rparr>"
    using listCardio_plan_key [of ?fc None None "[(''cardio'', ?v)]" ?v ?fp] ga by (simp add: json_nullish_def)
  show ?thesis using a b c by simp
qed

text \<open>
  The claim as stated fails in \<^verbatim>\<open>src/App.tsx\<close>: a body that exposes the list under
  \<^verbatim>\<open>plan\<close> yields an empty plan list, and not what the same list under \<^verbatim>\<open>cardio\<close> yields.
\<close>

theorem listCardio_plan_key_counterexample: \<open>
   Sheets_listCardio_App
       (bridge_json ''{"plan":[{"activity":"Ride"}],"logs":[]}''
          (JObj [(''plan'', JArr [JObj [(''activity'', JStr ''Ride'')]]), (''logs'', JArr [])]))
       None
     = Inr \<lparr> cardio_plan = JArr [], cardio_logs = JArr [] \<rparr> \<and>
   Sheets_listCardio_App
       (bridge_json ''{"cardio":[{"activity":"Ride"}],"logs":[]}''
          (JObj [(''cardio'', JArr [JObj [(''activity'', JStr ''Ride'')]]), (''logs'', JArr [])]))
       None
     = Inr \<lparr> cardio_plan = JArr [JObj [(''activity'', JStr ''Ride'')]], cardio_logs = JArr [] \<rparr>\<close>
  by (simp add: Sheets_listCardio_App_def getJSON_App_def bridge_json_def js_get_def json_nullish_def)

text \<open>
  C6, as the code has it. In \<^verbatim>\<open>src/App.tsx\<close>, \<^verbatim>\<open>addExercise\<close> awaits the write and, when it
  succeeds, returns \<^verbatim>\<open>ok = true\<close> with the id of the exercise it sent, whatever the body
  says. In the other draft it returns the parsed body as it is: reading its
  \<^verbatim>\<open>exercise_id\<close> gives the value the bridge echoed, and nothing when the bridge echoed
  none.
\<close>

theorem Sheets_addExercise_id:
  "(postJSON_App fetch stored ''addExercise'' (PExercise ex) = Inr j \<longrightarrow>
      Sheets_addExercise_App fetch stored ex = Inr \<lparr> add_ok = True, add_exercise_id = ex_id ex \<rparr>) \<and>
   (postJSON_part0 fetch stored ''addExercise'' (PExercise ex) = Inr (JObj kvs) \<longrightarrow>
      Sheets_addExercise_part0 fetch stored ex = Inr (JObj kvs) \<and>
      js_get (JObj kvs) ''exercise_id'' = Inr (map_of kvs ''exercise_id''))"
  by (simp add: Sheets_addExercise_App_def Sheets_addExercise_part0_def js_get_def)

theorem Sheets_addExercise_id_witness: \<open>
   Sheets_addExercise_App
       (bridge_json ''{"ok":true,"exercise_id":"ex_glute_bridge"}''
          (JObj [(''ok'', JBool True), (''exercise_id'', JStr ''ex_glute_bridge'')]))
       None ex_glute_bridge
     = Inr \<lparr> add_ok = True, add_exercise_id = Some ''ex_glute_bridge'' \<rparr> \<and>
   Sheets_addExercise_part0
       (bridge_json ''{"ok":true,"exercise_id":"ex_glute_bridge"}''
          (JObj [(''ok'', JBool True), (''exercise_id'', JStr ''ex_glute_bridge'')]))
       None ex_glute_bridge
     = Inr (JObj [(''ok'', JBool True), (''exercise_id'', JStr ''ex_glute_bridge'')]) \<and>
   js_get (JObj [(''ok'', JBool True), (''exercise_id'', JStr ''ex_glute_bridge'')]) ''exercise_id''
     = Inr (Some (JStr ''ex_glute_bridge''))\<close>
proof -
  let ?j = "JObj [(''ok'', JBool True), (''exercise_id'', JStr ''ex_glute_bridge'')]"
  let ?f = \<open>bridge_json ''{"ok":true,"exercise_id":"ex_glute_bridge"}'' ?j\<close>
  have a: "postJSON_App ?f None ''addExercise'' (PExercise ex_glute_bridge) = Inr ?j"
    by (simp add: postJSON_App_def bridge_json_def)
  have b: "postJSON_part0 ?f None ''addExercise'' (PExercise ex_glute_bridge) = Inr ?j"
    by (simp add: postJSON_part0_def bridge_json_def)
  show ?thesis
    using Sheets_addExercise_id
      [of ?f None ex_glute_bridge ?j "[(''ok'', JBool True), (''exercise_id'', JStr ''ex_glute_bridge'')]"]
      a b
    by (simp add: ex_glute_bridge_def)
qed

text \<open>
  The claim as stated fails in both drafts. Where the body is returned as it is, a body
  without \<^verbatim>\<open>exercise_id\<close> leaves the caller without an id, although one was sent. In
  \<^verbatim>\<open>src/App.tsx\<close> an id that the bridge assigned and echoed is dropped: for an exercise
  sent without an id the caller gets none.
\<close>

theorem Sheets_addExercise_id_counterexample: \<open>
   Sheets_addExercise_part0 (bridge_json ''{"ok":true}'' (JObj [(''ok'', JBool True)])) None ex_glute_bridge
     = Inr (JObj [(''ok'', JBool True)]) \<and>
   js_get (JObj [(''ok'', JBool True)]) ''exercise_id'' = Inr None \<and>
   ex_id ex_glute_bridge = Some ''ex_glute_bridge'' \<and>
   Sheets_addExercise_App
       (bridge_json ''{"ok":true,"exercise_id":"ex_k3v9x0aa"}''
          (JObj [(''ok'', JBool True), (''exercise_id'', JStr ''ex_k3v9x0aa'')]))
       None (ex_glute_bridge\<lparr> ex_id := None \<rparr>)
     = Inr \<lparr> add_ok = True, add_exercise_id = None \<rparr>\<close>
  by (simp add: Sheets_addExercise_part0_def Sheets_addExercise_App_def postJSON_part0_def
      postJSON_App_def bridge_json_def js_get_def ex_glute_bridge_def)

text \<open>
  C10, as the code has it. In \<^verbatim>\<open>src/App.tsx\<close> each of the four writes, when the request
  is answered with a success status and a body that parses as JSON, returns
  \<^verbatim>\<open>ok = true\<close> whatever the body holds, an \<^verbatim>\<open>ok: false\<close> included. When the status is a
  success and the body does not parse as JSON, each of the four writes fails with the
  parse failure of \<^verbatim>\<open>r.json()\<close>.
\<close>

theorem Sheets_App_writes_discard_body:
  "(fetch (Post ''saveStrengthLog'' (sheetId stored) (PStrengthLog sl)) = Inr r \<and> resp_ok r \<and> resp_json r = Some j \<longrightarrow>
      Sheets_saveStrengthLog_App fetch stored sl = Inr \<lparr> ok = True \<rparr>) \<and>
   (fetch (Post ''saveCardioLog'' (sheetId stored) (PCardioLog cl)) = Inr r \<and> resp_ok r \<and> resp_json r = Some j \<longrightarrow>
      Sheets_saveCardioLog_App fetch stored cl = Inr \<lparr> ok = True \<rparr>) \<and>
   (fetch (Post ''addExercise'' (sheetId stored) (PExercise ex)) = Inr r \<and> resp_ok r \<and> resp_json r = Some j \<longrightarrow>
      Sheets_addExercise_App fetch stored ex = Inr \<lparr> add_ok = True, add_exercise_id = ex_id ex \<rparr>) \<and>
   (fetch (Post ''addPlanRow'' (sheetId stored) (PPlanRow row)) = Inr r \<and> resp_ok r \<and> resp_json r = Some j \<longrightarrow>
      Sheets_addPlanRow_App fetch stored row = Inr \<lparr> ok = True \<rparr>) \<and>
   (fetch (Post ''saveStrengthLog'' (sheetId stored) (PStrengthLog sl)) = Inr r \<and> resp_ok r \<and> resp_json r = None \<longrightarrow>
      Sheets_saveStrengthLog_App fetch stored sl = Inl SyntaxError) \<and>
   (fetch (Post ''saveCardioLog'' (sheetId stored) (PCardioLog cl)) = Inr r \<and> resp_ok r \<and> resp_json r = None \<longrightarrow>
      Sheets_saveCardioLog_App fetch stored cl = Inl SyntaxError) \<and>
   (fetch (Post ''addExercise'' (sheetId stored) (PExercise ex)) = Inr r \<and> resp_ok r \<and> resp_json r = None \<longrightarrow>
      Sheets_addExercise_App fetch stored ex = Inl SyntaxError) \<and>
   (fetch (Post ''addPlanRow'' (sheetId stored) (PPlanRow row)) = Inr r \<and> resp_ok r \<and> resp_json r = None \<longrightarrow>
      Sheets_addPlanRow_App fetch stored row = Inl SyntaxError)"
  by (simp add: Sheets_saveStrengthLog_App_def Sheets_saveCardioLog_App_def
      Sheets_addExercise_App_def Sheets_addPlanRow_App_def postJSON_App_def)

theorem Sheets_App_writes_discard_body_witness: \<open>
   Sheets_saveStrengthLog_App
       (bridge_json ''{"ok":false,"error":"Unknown action"}''
          (JObj [(''ok'', JBool False), (''error'', JStr ''Unknown action'')]))
       None
       \<lparr> log_date_iso = ''2025-08-20'', log_day_id = ''Day 1'', log_block_name = ''Core Block'',
         log_set_number = 2, log_exercise_id = ''ex_banded_deadbug'',
         reps_done = Some ''6'', load = Some ''red band'', log_notes = None \<rparr>
     = Inr \<lparr> ok = True \<rparr> \<and>
   Sheets_saveCardioLog_App
       (bridge_json ''{"ok":false,"error":"Unknown action"}''
          (JObj [(''ok'', JBool False), (''error'', JStr ''Unknown action'')]))
       None
       \<lparr> cl_date_iso = ''2025-08-20'', cl_activity = ''Ride'', duration_min = Some 45,
         distance_km = None, avg_hr = None, rpe = None, tss = None, cl_notes = None \<rparr>
     = Inr \<lparr> ok = True \<rparr> \<and>
   Sheets_addExercise_App
       (bridge_json ''{"ok":false,"error":"Unknown action"}''
          (JObj [(''ok'', JBool False), (''error'', JStr ''Unknown action'')]))
       None ex_banded_deadbug
     = Inr \<lparr> add_ok = True, add_exercise_id = Some ''ex_banded_deadbug'' \<rparr> \<and>
   Sheets_addPlanRow_App
       (bridge_json ''{"ok":false,"error":"Unknown action"}''
          (JObj [(''ok'', JBool False), (''error'', JStr ''Unknown action'')]))
       None (seed_row 2 ''Core Block'' ''ex_banded_deadbug'' ''6 each side'' 4)
     = Inr \<lparr> ok = True \<rparr> \<and>
   Sheets_saveStrengthLog_App bridge_html None
       \<lparr> log_date_iso = ''2025-08-20'', log_day_id = ''Day 1'', log_block_name = ''Core Block'',
         log_set_number = 2, log_exercise_id = ''ex_banded_deadbug'',
         reps_done = Some ''6'', load = Some ''red band'', log_notes = None \<rparr>
     = Inl SyntaxError \<and>
   Sheets_saveCardioLog_App bridge_html None
       \<lparr> cl_date_iso = ''2025-08-20'', cl_activity = ''Ride'', duration_min = Some 45,
         distance_km = None, avg_hr = None, rpe = None, tss = None, cl_notes = None \<rparr>
     = Inl SyntaxError \<and>
   Sheets_addExercise_App bridge_html None ex_banded_deadbug = Inl SyntaxError \<and>
   Sheets_addPlanRow_App bridge_html None
       (seed_row 2 ''Core Block'' ''ex_banded_deadbug'' ''6 each side'' 4)
     = Inl SyntaxError\<close>
proof -
  let ?j = "JObj [(''ok'', JBool False), (''error'', JStr ''Unknown action'')]"
  let ?raw = \<open>''{"ok":false,"error":"Unknown action"}''\<close>
  let ?r = "\<lparr> resp_ok = True, resp_text = ?raw, resp_json = Some ?j \<rparr>"
  let ?sl = "\<lparr> log_date_iso = ''2025-08-20'', log_day_id = ''Day 1'', log_block_name = ''Core Block'',
         log_set_number = 2, log_exercise_id = ''ex_banded_deadbug'',
         reps_done = Some ''6'', load = Some ''red band'', log_notes = None \<rparr>"
  let ?cl = "\<lparr> cl_date_iso = ''2025-08-20'', cl_activity = ''Ride'', duration_min = Some 45,
         distance_km = None, avg_hr = None, rpe = None, tss = None, cl_notes = None \<rparr>"
  let ?row = "seed_row 2 ''Core Block'' ''ex_banded_deadbug'' ''6 each side'' 4"
  have f: "bridge_json ?raw ?j req = Inr ?r" for req
    by (simp add: bridge_json_def)
  have r: "resp_ok ?r" "resp_json ?r = Some ?j"
    by simp_all
  have id: "ex_id ex_banded_deadbug = Some ''ex_banded_deadbug''"
    by (simp add: ex_banded_deadbug_def)
  let ?h = "\<lparr> resp_ok = True,
         resp_text = ''<!DOCTYPE html><html><head><title>Error</title></head><body><p>Script function not found: doGet</p><p>Please try again later.</p></body></html>'',
         resp_json = None \<rparr>"
  have a: "Sheets_saveStrengthLog_App (bridge_json ?raw ?j) None ?sl = Inr \<lparr> ok = True \<rparr> \<and>
      Sheets_saveCardioLog_App (bridge_json ?raw ?j) None ?cl = Inr \<lparr> ok = True \<rparr> \<and>
      Sheets_addExercise_App (bridge_json ?raw ?j) None ex_banded_deadbug
        = Inr \<lparr> add_ok = True, add_exercise_id = Some ''ex_banded_deadbug'' \<rparr> \<and>
      Sheets_addPlanRow_App (bridge_json ?raw ?j) None ?row = Inr \<lparr> ok = True \<rparr>"
    using Sheets_App_writes_discard_body
      [of "bridge_json ?raw ?j" None ?sl ?r ?j ?cl ex_banded_deadbug ?row] f r id
    by simp
  have b: "Sheets_saveStrengthLog_App bridge_html None ?sl = Inl SyntaxError \<and>
      Sheets_saveCardioLog_App bridge_html None ?cl = Inl SyntaxError \<and>
      Sheets_addExercise_App bridge_html None ex_banded_deadbug = Inl SyntaxError \<and>
      Sheets_addPlanRow_App bridge_html None ?row = Inl SyntaxError"
    using Sheets_App_writes_discard_body
      [of bridge_html None ?sl ?h ?j ?cl ex_banded_deadbug ?row]
    by (simp add: bridge_html_def)
  from a b show ?thesis by simp
qed

text \<open>
  The claim as stated fails when the status is a success and the body is not JSON:
  \<^verbatim>\<open>postJSON\<close> returns \<^verbatim>\<open>r.json()\<close>, whose parse failure rejects the write.
\<close>

theorem Sheets_App_writes_discard_body_counterexample:
  "Sheets_saveStrengthLog_App bridge_html None
       \<lparr> log_date_iso = ''2025-08-20'', log_day_id = ''Day 1'', log_block_name = ''Core Block'',
         log_set_number = 2, log_exercise_id = ''ex_banded_deadbug'',
         reps_done = Some ''6'', load = Some ''red band'', log_notes = None \<rparr>
     = Inl SyntaxError \<and>
   resp_ok (projr (bridge_html (Post ''saveStrengthLog'' [] (PExercise ex_banded_deadbug)))) \<and>
   Sheets_addExercise_App bridge_html None ex_banded_deadbug = Inl SyntaxError"
  by (simp add: Sheets_saveStrengthLog_App_def Sheets_addExercise_App_def postJSON_App_def
      bridge_html_def)

section \<open>Properties of the icon generator\<close>

lemma Math_round_inner: "Math_round (of_int sz * (1 - 2 * PADDING)) = (38 * sz + 25) div 50"
proof -
  have "of_int sz * (1 - 2 * PADDING) + 1 / 2 = (of_int (38 * sz + 25) :: rat) / of_int 50"
    by (simp add: PADDING_def field_simps)
  then show ?thesis
    unfolding Math_round_def by (simp only: floor_divide_of_int_eq)
qed

lemma Math_round_half: "Math_round (of_int d / 2) = (d + 1) div 2"
proof -
  have "of_int d / 2 + 1 / 2 = (of_int (d + 1) :: rat) / of_int 2"
    by (simp add: field_simps)
  then show ?thesis
    unfolding Math_round_def by (simp only: floor_divide_of_int_eq)
qed

lemma inner_renderPadded: "inner (renderPadded sz m) = (38 * sz + 25) div 50"
  by (simp add: renderPadded_def Let_def Math_round_inner)

lemma left_renderPadded: "left (renderPadded sz m) = (sz - (38 * sz + 25) div 50 + 1) div 2"
  by (simp add: renderPadded_def Let_def Math_round_inner Math_round_half del: of_int_diff)

lemma top_renderPadded: "top (renderPadded sz m) = left (renderPadded sz m)"
  by (simp add: renderPadded_def Let_def)

text \<open>
  For any size that is not negative the artwork lies inside the canvas, and the margins
  before and after it differ by at most one pixel, the larger one coming first.
\<close>

lemma renderPadded_centred:
  "0 \<le> sz \<Longrightarrow>
     0 \<le> inner (renderPadded sz m) \<and> inner (renderPadded sz m) \<le> sz \<and>
     0 \<le> sz - (left (renderPadded sz m) + inner (renderPadded sz m)) \<and>
     sz - (left (renderPadded sz m) + inner (renderPadded sz m)) \<le> left (renderPadded sz m) \<and>
     left (renderPadded sz m) \<le> sz - (left (renderPadded sz m) + inner (renderPadded sz m)) + 1"
proof -
  assume sz: "0 \<le> sz"
  define x where "x = (38 * sz + 25) div 50"
  define y where "y = (sz - x + 1) div 2"
  have x1: "38 * sz + 25 = 50 * x + (38 * sz + 25) mod 50"
    unfolding x_def by (rule mult_div_mod_eq [symmetric])
  have x2: "0 \<le> (38 * sz + 25) mod 50" "(38 * sz + 25) mod 50 < 50"
    by simp_all
  have y1: "sz - x + 1 = 2 * y + (sz - x + 1) mod 2"
    unfolding y_def by (rule mult_div_mod_eq [symmetric])
  have y2: "0 \<le> (sz - x + 1) mod 2" "(sz - x + 1) mod 2 < 2"
    by simp_all
  have "0 \<le> x \<and> x \<le> sz \<and> 0 \<le> sz - (y + x) \<and> sz - (y + x) \<le> y \<and> y \<le> sz - (y + x) + 1"
    using sz x1 x2 y1 y2 by linarith
  then show ?thesis
    by (simp add: inner_renderPadded left_renderPadded x_def y_def)
qed

text \<open>
  The exact product for size 512 is 389.12; whatever is within 0.38 of it rounds to 389,
  so the rounding errors of floating point, which are far smaller, do not change the
  result. The margin \<open>(512 - 389) / 2 = 61.5\<close> is exact in floating point as well.
\<close>

lemma Math_round_near_389:
  "\<bar>x - 512 * (1 - 2 * PADDING)\<bar> < 38 / 100 \<Longrightarrow> Math_round x = 389"
proof -
  assume a: "\<bar>x - 512 * (1 - 2 * PADDING)\<bar> < 38 / 100"
  have c: "512 * (1 - 2 * PADDING) = 9728 / 25"
    by (simp add: PADDING_def)
  have "389 \<le> x + 1 / 2"
    using a unfolding c by linarith
  moreover have "x + 1 / 2 < 390"
    using a unfolding c by linarith
  ultimately show ?thesis
    unfolding Math_round_def by (simp add: floor_eq_iff)
qed

text \<open>
  C9. For every size the inner box is \<open>round(size * (1 - 2 * 0.12))\<close> and the canvas is
  size by size. For size 512 the inner box is 389 pixels; the artwork is placed 62
  pixels from the left and from the top, which leaves 61 pixels on the right and at the
  bottom.
\<close>


theorem renderPadded_geometry:
  "inner (renderPadded sz m) = Math_round (of_int sz * (1 - 2 * (12 / 100))) \<and>
   canvas_width (renderPadded sz m) = sz \<and>
   canvas_height (renderPadded sz m) = sz \<and>
   inner (renderPadded 512 m) = 389 \<and>
   left (renderPadded 512 m) = Math_round ((512 - 389) / 2) \<and>
   left (renderPadded 512 m) = 62 \<and>
   top (renderPadded 512 m) = 62 \<and>
   512 - (left (renderPadded 512 m) + inner (renderPadded 512 m)) = 61 \<and>
   512 - (top (renderPadded 512 m) + inner (renderPadded 512 m)) = 61"
proof -
  have "Math_round ((512 - 389) / 2) = 62"
    using Math_round_half [of "512 - 389"] by simp
  moreover have "canvas_width (renderPadded sz m) = sz" "canvas_height (renderPadded sz m) = sz"
    by (simp_all add: renderPadded_def Let_def)
  moreover have "inner (renderPadded sz m) = Math_round (of_int sz * (1 - 2 * (12 / 100)))"
    by (simp add: renderPadded_def Let_def PADDING_def)
  ultimately show ?thesis
    by (simp add: inner_renderPadded left_renderPadded top_renderPadded)
qed

section \<open>Properties of the block grouping\<close>



















text \<open>
  A block name that every object inherits makes the loop throw: no blocks are derived.
\<close>

lemma blocks_inherited_block_name:
  "blocks [seed_row 1 ''constructor'' ''ex_glute_bridge'' ''8 to 10'' 1] exMap = Inl TypeError"
  by (simp add: blocks_def group_row_def Let_def obj_get_def Object_prototype_names_def seed_row_def)




end
